theory Spec2Isabelle
  imports Main "HOL-Library.Sublist"
begin


section \<open>Strings and object literals of the JavaScript runtime\<close>

text \<open>
  A string is the list of the bytes of its UTF-8 encoding: an ASCII character is one
  byte, any other character two to four bytes, none of them below 128.

  \<^verbatim>\<open>String.prototype.toLowerCase\<close> maps the 26 ASCII capitals to their small letters.
  Two characters beyond ASCII have a lower case with an ASCII letter in it: the Kelvin sign
  U+212A (bytes E2 84 AA) becomes "k", and U+0130, the capital I with a dot (bytes C4 B0),
  becomes "i" followed by the combining dot U+0307 (bytes CC 87). These are mapped as the
  runtime maps them. Every other character beyond ASCII is kept as it is, where the
  runtime gives a character that is again beyond ASCII: the result differs from the
  runtime's in bytes from 128 on only, and no key of a table of the program, nor a name
  of \<^verbatim>\<open>Object.prototype\<close>, has such a byte.
\<close>

definition upper_letters :: string where
  "upper_letters = ''ABCDEFGHIJKLMNOPQRSTUVWXYZ''"

definition lower_letters :: string where
  "lower_letters = ''abcdefghijklmnopqrstuvwxyz''"

definition lower_char :: "char \<Rightarrow> char" where
  "lower_char c = (case map_of (zip upper_letters lower_letters) c of Some d \<Rightarrow> d | None \<Rightarrow> c)"

definition upper_char :: "char \<Rightarrow> char" where
  "upper_char c = (case map_of (zip lower_letters upper_letters) c of Some d \<Rightarrow> d | None \<Rightarrow> c)"

fun toLowerCase :: "string \<Rightarrow> string" where
  "toLowerCase [] = []"
| "toLowerCase (c # cs) =
     (if c = CHR 0xE2 \<and> take 2 cs = [CHR 0x84, CHR 0xAA]
      then CHR ''k'' # toLowerCase (drop 2 cs)
      else if c = CHR 0xC4 \<and> take 1 cs = [CHR 0xB0]
      then CHR ''i'' # CHR 0xCC # CHR 0x87 # toLowerCase (drop 1 cs)
      else lower_char c # toLowerCase cs)"

text \<open>
  \<^verbatim>\<open>String.prototype.trim\<close> removes white space and line terminators from both ends:
  U+0009 to U+000D, U+0020, U+00A0, U+1680, U+2000 to U+200A, U+2028, U+2029, U+202F,
  U+205F, U+3000 and U+FEFF, here by their UTF-8 bytes.
\<close>

definition white_space :: "string list" where
  "white_space =
     [[CHR 0x09], [CHR 0x0A], [CHR 0x0B], [CHR 0x0C], [CHR 0x0D], [CHR 0x20],
      [CHR 0xC2, CHR 0xA0], [CHR 0xE1, CHR 0x9A, CHR 0x80],
      [CHR 0xE2, CHR 0x80, CHR 0x80], [CHR 0xE2, CHR 0x80, CHR 0x81],
      [CHR 0xE2, CHR 0x80, CHR 0x82], [CHR 0xE2, CHR 0x80, CHR 0x83],
      [CHR 0xE2, CHR 0x80, CHR 0x84], [CHR 0xE2, CHR 0x80, CHR 0x85],
      [CHR 0xE2, CHR 0x80, CHR 0x86], [CHR 0xE2, CHR 0x80, CHR 0x87],
      [CHR 0xE2, CHR 0x80, CHR 0x88], [CHR 0xE2, CHR 0x80, CHR 0x89],
      [CHR 0xE2, CHR 0x80, CHR 0x8A], [CHR 0xE2, CHR 0x80, CHR 0xA8],
      [CHR 0xE2, CHR 0x80, CHR 0xA9], [CHR 0xE2, CHR 0x80, CHR 0xAF],
      [CHR 0xE2, CHR 0x81, CHR 0x9F], [CHR 0xE3, CHR 0x80, CHR 0x80],
      [CHR 0xEF, CHR 0xBB, CHR 0xBF]]"

text \<open>
  \<open>strip ws n s\<close> removes from the front of \<open>s\<close> up to \<open>n\<close> of the byte sequences in
  \<open>ws\<close>; with \<open>n\<close> the length of \<open>s\<close> it removes all there are.
\<close>

primrec strip :: "string list \<Rightarrow> nat \<Rightarrow> string \<Rightarrow> string" where
  "strip ws 0 s = s"
| "strip ws (Suc n) s =
     (case find (\<lambda>w. prefix w s) ws of
        Some w \<Rightarrow> strip ws n (drop (length w) s)
      | None \<Rightarrow> s)"

definition trimStart :: "string \<Rightarrow> string" where
  "trimStart s = strip white_space (length s) s"

definition trimEnd :: "string \<Rightarrow> string" where
  "trimEnd s = rev (strip (map rev white_space) (length s) (rev s))"

definition trim :: "string \<Rightarrow> string" where
  "trim s = trimEnd (trimStart s)"

text \<open>
  Reading a property of an object literal, \<^verbatim>\<open>obj[key]\<close>. An object literal inherits from
  \<^verbatim>\<open>Object.prototype\<close>: a key that is not an own property of the literal is looked up
  there, and the members of \<^verbatim>\<open>Object.prototype\<close> (functions, and the prototype object
  itself for \<^verbatim>\<open>__proto__\<close>) are found under their names. Only a key found in neither
  place reads as \<^verbatim>\<open>undefined\<close>, here \<open>None\<close>.
\<close>

datatype js_value =
    JStr string          \<comment> \<open>a string value\<close>
  | JInherited string    \<comment> \<open>the member of \<^verbatim>\<open>Object.prototype\<close> of that name\<close>

definition object_prototype_names :: "string list" where
  "object_prototype_names =
     [''constructor'', ''__proto__'', ''hasOwnProperty'', ''isPrototypeOf'',
      ''propertyIsEnumerable'', ''toLocaleString'', ''toString'', ''valueOf'',
      ''__defineGetter__'', ''__defineSetter__'', ''__lookupGetter__'', ''__lookupSetter__'']"

definition js_get :: "(string \<times> string) list \<Rightarrow> string \<Rightarrow> js_value option" where
  "js_get obj key =
     (case map_of obj key of
        Some v \<Rightarrow> Some (JStr v)
      | None \<Rightarrow> if key \<in> set object_prototype_names then Some (JInherited key) else None)"

text \<open>Truthiness, and \<^verbatim>\<open>a || b\<close> where \<open>a\<close> may be \<^verbatim>\<open>undefined\<close>.\<close>

fun truthy :: "js_value \<Rightarrow> bool" where
  "truthy (JStr s) = (s \<noteq> [])"
| "truthy (JInherited _) = True"

definition js_or :: "js_value option \<Rightarrow> js_value \<Rightarrow> js_value" where
  "js_or a b = (case a of Some v \<Rightarrow> if truthy v then v else b | None \<Rightarrow> b)"

section \<open>Translation registries\<close>

subsection \<open>Store path (patientSlice.ts)\<close>

definition relationMap :: "(string \<times> string) list" where
  "relationMap =
     [(''spouse'', ''1''), (''father'', ''2''), (''mother'', ''2''), (''parent'', ''3''),
      (''child'', ''4''), (''son'', ''4''), (''daughter'', ''4''), (''sibling'', ''5''),
      (''brother'', ''5''), (''sister'', ''5''), (''grandparent'', ''6''),
      (''grandchild'', ''7''), (''relative'', ''8''), (''other'', ''9'')]"

definition getRelationshipId :: "string \<Rightarrow> js_value" where
  "getRelationshipId relationship = js_or (js_get relationMap (toLowerCase relationship)) (JStr ''9'')"

definition districtMap :: "(string \<times> string) list" where
  "districtMap =
     [(''kathmandu'', ''46''), (''lalitpur'', ''47''), (''bhaktapur'', ''47''),
      (''chitwan'', ''28''), (''pokhara'', ''37''), (''biratnagar'', ''56''),
      (''birgunj'', ''52''), (''dharan'', ''61''), (''butwal'', ''35''), (''hetauda'', ''50'')]"

definition getDistrictId :: "string \<Rightarrow> js_value" where
  "getDistrictId district = js_or (js_get districtMap (toLowerCase district)) (JStr ''46'')"

definition vdcMap :: "(string \<times> string) list" where
  "vdcMap =
     [(''municipality_a'', ''1147''), (''municipality_b'', ''1148''),
      (''municipality_c'', ''1149''), (''vdc_a'', ''1150''), (''vdc_b'', ''1151'')]"

definition getVdcId :: "string \<Rightarrow> js_value" where
  "getVdcId vdcMunicipality = js_or (js_get vdcMap (toLowerCase vdcMunicipality)) (JStr ''1147'')"

subsection \<open>Cache path (patient-hooks.ts)\<close>

text \<open>
  The hooks file has tables and functions of its own. Where a name is the store path's
  too, the hooks' one carries the suffix \<open>_hooks\<close>.
\<close>

definition relationMap_hooks :: "(string \<times> string) list" where
  "relationMap_hooks =
     [(''spouse'', ''1''), (''child'', ''2''), (''parent'', ''3''), (''sibling'', ''4''),
      (''grandparent'', ''5''), (''grandchild'', ''6''), (''relative'', ''9''), (''other'', ''9'')]"

definition getRelationId :: "string \<Rightarrow> js_value" where
  "getRelationId relationship =
     js_or (js_get relationMap_hooks (toLowerCase relationship)) (JStr ''9'')"

definition districtMap_hooks :: "(string \<times> string) list" where
  "districtMap_hooks = [(''kathmandu'', ''45''), (''lalitpur'', ''46''), (''bhaktapur'', ''47'')]"

definition getDistrictId_hooks :: "string \<Rightarrow> js_value" where
  "getDistrictId_hooks district =
     js_or (js_get districtMap_hooks (toLowerCase district)) (JStr ''45'')"

definition vdcMap_hooks :: "(string \<times> string) list" where
  "vdcMap_hooks = [(''municipality_a'', ''1147''), (''municipality_b'', ''1148'')]"

definition getVdcId_hooks :: "string \<Rightarrow> js_value" where
  "getVdcId_hooks vdcMunicipality =
     js_or (js_get vdcMap_hooks (toLowerCase vdcMunicipality)) (JStr ''1147'')"

section \<open>Patients and raw remote records (patientSlice.ts)\<close>

text \<open>
  A raw record of the remote service is untyped in the source (\<^verbatim>\<open>any\<close>): a field that
  the interfaces declare a string may hold a number or a boolean at run time. A field
  value is a JSON primitive; a number is named by the text \<^verbatim>\<open>String(n)\<close> gives for it
  (so zero is \<open>''0''\<close>). \<^verbatim>\<open>null\<close> and a missing field are both \<open>None\<close>: the code
  treats them alike everywhere. A field that holds a nested array or object is outside
  the model (as a gender it would make the transformer throw, as a number does; in any
  other field it would be copied or converted like a primitive).
\<close>

datatype prim =
    PStr string
  | PNum string
  | PBool bool

fun prim_truthy :: "prim \<Rightarrow> bool" where
  "prim_truthy (PStr s) = (s \<noteq> [])"
| "prim_truthy (PNum n) = (n \<noteq> ''0'')"
| "prim_truthy (PBool b) = b"

text \<open>The conversion to a string that a template literal applies.\<close>

fun to_string :: "prim \<Rightarrow> string" where
  "to_string (PStr s) = s"
| "to_string (PNum n) = n"
| "to_string (PBool b) = (if b then ''true'' else ''false'')"

text \<open>
  The fields of the form and of a patient have the same names. The form's are strings.
  In a patient, the fields that the transformer copies from the raw record hold whatever
  primitive the record held; the type parameter is the type of these fields. The
  identity function of HOL owns the name \<open>id\<close>, so the identifier field is \<open>id'\<close>.
\<close>

record 'v PatientFields =
  firstName :: 'v
  lastName :: 'v
  gender :: string
  age :: string
  year :: string
  dateOfBirth :: 'v
  email :: 'v
  phone :: 'v
  relationship :: string
  district :: string
  vdcMunicipality :: string
  wardNo :: 'v
  tole :: 'v

type_synonym PatientFormData = "string PatientFields"

record Patient = "prim PatientFields" +
  id' :: prim
  createdAt :: string
  updatedAt :: string

record raw_record =
  midasid :: "prim option"
  userid :: "prim option"
  fname :: "prim option"
  lname :: "prim option"
  gender_raw :: "prim option"
  dobbs :: "prim option"
  dobad :: "prim option"
  emailaddress :: "prim option"
  mobilenumber :: "prim option"
  phone_raw :: "prim option"
  user_type :: "prim option"
  districtname :: "prim option"
  vdcname :: "prim option"
  wardno :: "prim option"
  address :: "prim option"
  createddate :: "prim option"
  datapostdatetime :: "prim option"

definition no_fields :: raw_record where
  "no_fields =
     \<lparr>midasid = None, userid = None, fname = None, lname = None, gender_raw = None,
      dobbs = None, dobad = None, emailaddress = None, mobilenumber = None,
      phone_raw = None, user_type = None, districtname = None, vdcname = None,
      wardno = None, address = None, createddate = None, datapostdatetime = None\<rparr>"

text \<open>
  A value of the response that the transformer may be given: an object with the fields
  above, an array, or a primitive, of which only the truthiness is observed. Reading any
  of the transformer's fields from a primitive or an array gives \<^verbatim>\<open>undefined\<close>.
\<close>

datatype raw =
    Prim bool          \<comment> \<open>a string, number or boolean; the flag is its truthiness\<close>
  | Arr                \<comment> \<open>an array\<close>
  | Obj raw_record     \<comment> \<open>an object with the fields above\<close>

fun raw_truthy :: "raw \<Rightarrow> bool" where
  "raw_truthy (Prim b) = b"
| "raw_truthy Arr = True"
| "raw_truthy (Obj _) = True"

fun is_object :: "raw \<Rightarrow> bool" where
  "is_object (Prim _) = False"
| "is_object Arr = True"
| "is_object (Obj _) = True"

fun fields_of :: "raw \<Rightarrow> raw_record" where
  "fields_of (Obj r) = r"
| "fields_of _ = no_fields"

text \<open>\<^verbatim>\<open>a || b\<close> on strings that may be absent: the empty string is falsy.\<close>

definition or_else :: "string option \<Rightarrow> string option \<Rightarrow> string option" where
  "or_else a b = (case a of Some s \<Rightarrow> if s = [] then b else Some s | None \<Rightarrow> b)"

definition or_default :: "string option \<Rightarrow> string \<Rightarrow> string" where
  "or_default a d = (case a of Some s \<Rightarrow> if s = [] then d else s | None \<Rightarrow> d)"

text \<open>\<^verbatim>\<open>a || b\<close> on field values: the empty string, zero and \<^verbatim>\<open>false\<close> are falsy.\<close>

definition field_or_else :: "prim option \<Rightarrow> prim option \<Rightarrow> prim option" where
  "field_or_else a b = (case a of Some v \<Rightarrow> if prim_truthy v then Some v else b | None \<Rightarrow> b)"

definition field_or_default :: "prim option \<Rightarrow> prim \<Rightarrow> prim" where
  "field_or_default a d = (case a of Some v \<Rightarrow> if prim_truthy v then v else d | None \<Rightarrow> d)"

text \<open>\<^verbatim>\<open>String(n)\<close> for an integer.\<close>

definition digit_char :: "nat \<Rightarrow> char" where
  "digit_char n = ''0123456789'' ! (n mod 10)"

fun show_nat :: "nat \<Rightarrow> string" where
  "show_nat n = (if n < 10 then [digit_char n] else show_nat (n div 10) @ [digit_char n])"

declare show_nat.simps [simp del]

definition show_int :: "int \<Rightarrow> string" where
  "show_int i = (if i < 0 then CHR ''-'' # show_nat (nat (- i)) else show_nat (nat i))"

subsection \<open>The clock, the date parser and the engine's error text\<close>

text \<open>
  The transformer reads the clock and calls the runtime's \<^verbatim>\<open>Date\<close> constructor, whose
  reading of a value is the engine's. Both are parameters of the model: a date is seen
  through \<^verbatim>\<open>getFullYear\<close>, \<^verbatim>\<open>getMonth\<close> and \<^verbatim>\<open>getDate\<close>; \<open>parseDate\<close> is
  \<^verbatim>\<open>new Date(v)\<close>, with \<open>None\<close> for an \<^verbatim>\<open>Invalid Date\<close>; \<open>isoString\<close> is
  \<^verbatim>\<open>new Date(v).toISOString()\<close>, with \<open>None\<close> where it throws a \<^verbatim>\<open>RangeError\<close>.
  \<open>errorMessage\<close> is the \<^verbatim>\<open>message\<close> that the engine gives an error it throws.
\<close>

text \<open>
  The two errors the code can throw, both a \<^verbatim>\<open>TypeError\<close>: the call of a value that is
  no function, and the destructuring of \<^verbatim>\<open>undefined\<close> or \<^verbatim>\<open>null\<close>.
\<close>

datatype js_error = NotAFunction | CannotDestructure

record date =
  getFullYear :: int
  getMonth :: int
  getDate :: int

record env =
  today :: date
  parseDate :: "prim \<Rightarrow> date option"
  nowIso :: string
  isoString :: "prim \<Rightarrow> string option"
  errorMessage :: "js_error \<Rightarrow> string"

text \<open>
  The getters of an \<^verbatim>\<open>Invalid Date\<close> return \<^verbatim>\<open>NaN\<close>; every comparison with
  \<^verbatim>\<open>NaN\<close> is false, so the function falls through to \<^verbatim>\<open>String(NaN)\<close>. Nothing in
  the \<^verbatim>\<open>try\<close> block throws for a primitive argument, so the \<^verbatim>\<open>catch\<close> branch has
  no counterpart here.
\<close>

definition calculateAge :: "env \<Rightarrow> prim option \<Rightarrow> string" where
  "calculateAge e dob =
     (case dob of
        None \<Rightarrow> ''Unknown''
      | Some v \<Rightarrow>
          if prim_truthy v
          then (case parseDate e v of
                  None \<Rightarrow> ''NaN''
                | Some birthDate \<Rightarrow>
                    let age = getFullYear (today e) - getFullYear birthDate;
                        monthDiff = getMonth (today e) - getMonth birthDate
                    in if monthDiff < 0 \<or> (monthDiff = 0 \<and> getDate (today e) < getDate birthDate)
                       then show_int (age - 1)
                       else show_int age)
          else ''Unknown'')"

definition slashed_day :: "string \<Rightarrow> string" where
  "slashed_day str =
     map (\<lambda>c. if c = CHR ''-'' then CHR ''/'' else c) (takeWhile (\<lambda>c. c \<noteq> CHR ''T'') str)"

definition formatDate :: "env \<Rightarrow> prim option \<Rightarrow> string" where
  "formatDate e dateStr =
     (case dateStr of
        None \<Rightarrow> slashed_day (nowIso e)
      | Some v \<Rightarrow>
          if prim_truthy v
          then (case isoString e v of
                  Some str \<Rightarrow> slashed_day str
                | None \<Rightarrow> slashed_day (nowIso e))
          else slashed_day (nowIso e))"

text \<open>
  The gender, \<^verbatim>\<open>apiPatient.gender?.toLowerCase().trim() || ""\<close>. The optional chain
  stops at a gender that is \<^verbatim>\<open>undefined\<close> or \<^verbatim>\<open>null\<close>. A string is lower-cased and
  trimmed. A number or a boolean has no \<^verbatim>\<open>toLowerCase\<close>, and the call of
  \<^verbatim>\<open>undefined\<close> throws.
\<close>

definition gender_of :: "raw_record \<Rightarrow> js_error + string" where
  "gender_of apiPatient =
     (case gender_raw apiPatient of
        None \<Rightarrow> Inr []
      | Some (PStr g) \<Rightarrow> Inr (trim (toLowerCase g))
      | Some (PNum n) \<Rightarrow> Inl NotAFunction
      | Some (PBool b) \<Rightarrow> Inl NotAFunction)"

definition transformRecord :: "env \<Rightarrow> raw_record \<Rightarrow> js_error + Patient" where
  "transformRecord e apiPatient =
     (case gender_of apiPatient of
        Inl err \<Rightarrow> Inl err
      | Inr g \<Rightarrow>
          Inr \<lparr>firstName = field_or_default (fname apiPatient) (PStr []),
               lastName = field_or_default (lname apiPatient) (PStr []),
               gender = g,
               age = calculateAge e (field_or_else (dobbs apiPatient) (dobad apiPatient)),
               year = ''Years'',
               dateOfBirth =
                 field_or_default (field_or_else (dobbs apiPatient) (dobad apiPatient)) (PStr []),
               email = field_or_default (emailaddress apiPatient) (PStr []),
               phone =
                 field_or_default (field_or_else (mobilenumber apiPatient) (phone_raw apiPatient))
                   (PStr []),
               relationship =
                 (if user_type apiPatient = Some (PStr ''self'') then ''self'' else ''relative''),
               district =
                 ''District ''
                 @ to_string (field_or_default (districtname apiPatient) (PStr ''undefined'')),
               vdcMunicipality =
                 ''Municipality '' @ to_string (field_or_default (vdcname apiPatient) (PStr ''A'')),
               wardNo = field_or_default (wardno apiPatient) (PStr ''1''),
               tole = field_or_default (address apiPatient) (PStr ''Unknown''),
               id' =
                 field_or_default (field_or_else (midasid apiPatient) (userid apiPatient))
                   (PStr ''unknown''),
               createdAt = formatDate e (createddate apiPatient),
               updatedAt = formatDate e (datapostdatetime apiPatient)\<rparr>)"

definition transformPatientData :: "env \<Rightarrow> raw \<Rightarrow> js_error + Patient" where
  "transformPatientData e apiPatient = transformRecord e (fields_of apiPatient)"

section \<open>The synchronization store (patientSlice.ts)\<close>

subsection \<open>The remote call and its outcome\<close>

text \<open>
  The envelope of a response, after the interface \<^verbatim>\<open>PatientApiResponse\<close>: \<^verbatim>\<open>message\<close>,
  \<^verbatim>\<open>type\<close> (here \<open>rtype\<close>) and \<^verbatim>\<open>response\<close>. At run time the \<^verbatim>\<open>response\<close> member
  may be missing or \<^verbatim>\<open>null\<close> (\<open>None\<close>). When there, it has an optional \<^verbatim>\<open>list\<close>, an
  array, and an optional \<^verbatim>\<open>my\<close> (\<open>resp_list\<close> and \<open>resp_my\<close>; \<open>None\<close> also stands for
  a \<^verbatim>\<open>list\<close> that is no array, which the code passes over like a missing one). The
  elements of the list and \<^verbatim>\<open>my\<close> are declared \<^verbatim>\<open>any\<close>: each is a value as above,
  or \<^verbatim>\<open>null\<close> (\<open>None\<close>).
\<close>

record response_body =
  resp_list :: "raw option list option"
  resp_my :: "raw option"

record PatientApiResponse =
  message :: "string option"
  response :: "response_body option"
  rtype :: string

text \<open>
  \<^verbatim>\<open>api.post\<close> either resolves with a response or throws. Of a thrown error the
  \<^verbatim>\<open>catch\<close> blocks read \<^verbatim>\<open>error?.response?.data?.message\<close> and \<^verbatim>\<open>error?.message\<close>.
\<close>

record thrown_error =
  remote_message :: "string option"
  error_message :: "string option"

datatype post_outcome = Resolved PatientApiResponse | Thrown thrown_error

definition catch_message :: "thrown_error \<Rightarrow> string \<Rightarrow> string" where
  "catch_message err fallback =
     or_default (or_else (remote_message err) (error_message err)) fallback"

subsection \<open>State, actions and the reducer\<close>

record PatientState =
  patients :: "Patient list"
  loading :: bool
  error :: "string option"
  successMessage :: "string option"

definition initialState :: PatientState where
  "initialState = \<lparr>patients = [], loading = False, error = None, successMessage = None\<rparr>"

text \<open>
  The payload of a rejected action is the value given to \<^verbatim>\<open>rejectWithValue\<close>, and
  \<^verbatim>\<open>undefined\<close> (\<open>None\<close>) for a rejection that carries none.
\<close>

datatype action =
    ClearError
  | ClearSuccessMessage
  | ResetPatientState
  | UpdatePatient Patient
  | FetchPending
  | FetchFulfilled "Patient list"
  | FetchRejected "string option"
  | CreatePending
  | CreateFulfilled PatientApiResponse
  | CreateRejected "string option"

text \<open>\<^verbatim>\<open>Array.prototype.findIndex\<close>: the first index whose element passes, or \<open>-1\<close>.\<close>

fun findIndex :: "('a \<Rightarrow> bool) \<Rightarrow> 'a list \<Rightarrow> int" where
  "findIndex P [] = - 1"
| "findIndex P (x # xs) =
     (if P x then 0 else (let i = findIndex P xs in if i = - 1 then - 1 else i + 1))"

fun reducer :: "PatientState \<Rightarrow> action \<Rightarrow> PatientState" where
  "reducer state ClearError = state\<lparr>error := None\<rparr>"
| "reducer state ClearSuccessMessage = state\<lparr>successMessage := None\<rparr>"
| "reducer state ResetPatientState =
     state\<lparr>patients := [], loading := False, error := None, successMessage := None\<rparr>"
| "reducer state (UpdatePatient payload) =
     (let index = findIndex (\<lambda>p. id' p = id' payload) (patients state)
      in if index \<noteq> - 1 then state\<lparr>patients := (patients state)[nat index := payload]\<rparr>
         else state)"
| "reducer state FetchPending = state\<lparr>loading := True, error := None\<rparr>"
| "reducer state (FetchFulfilled payload) =
     state\<lparr>loading := False, patients := payload, error := None\<rparr>"
| "reducer state (FetchRejected payload) = state\<lparr>loading := False, error := payload\<rparr>"
| "reducer state CreatePending = state\<lparr>loading := True, error := None, successMessage := None\<rparr>"
| "reducer state (CreateFulfilled payload) =
     state\<lparr>loading := False, successMessage := message payload, error := None\<rparr>"
| "reducer state (CreateRejected payload) = state\<lparr>loading := False, error := payload\<rparr>"

subsection \<open>fetchPatients\<close>

text \<open>
  The guard of the loop over the list, \<^verbatim>\<open>relative && typeof relative === "object"\<close>:
  \<^verbatim>\<open>null\<close> and the primitives do not pass.
\<close>

definition relative_object :: "raw option \<Rightarrow> raw option" where
  "relative_object relative =
     (case relative of
        None \<Rightarrow> None
      | Some v \<Rightarrow> if raw_truthy v \<and> is_object v then Some v else None)"

text \<open>
  The list is built inside the \<^verbatim>\<open>try\<close> block: an error that the transformer throws
  ends the building at once.
\<close>

fun push_relatives :: "env \<Rightarrow> raw option list \<Rightarrow> Patient list \<Rightarrow> js_error + Patient list" where
  "push_relatives e [] acc = Inr acc"
| "push_relatives e (relative # rest) acc =
     (case relative_object relative of
        None \<Rightarrow> push_relatives e rest acc
      | Some v \<Rightarrow>
          (case transformPatientData e v of
             Inl err \<Rightarrow> Inl err
           | Inr p \<Rightarrow> push_relatives e rest (acc @ [p])))"

definition own_record :: "env \<Rightarrow> raw option \<Rightarrow> js_error + Patient list" where
  "own_record e my =
     (case my of
        None \<Rightarrow> Inr []
      | Some v \<Rightarrow>
          if raw_truthy v
          then (case transformPatientData e v of Inl err \<Rightarrow> Inl err | Inr p \<Rightarrow> Inr [p])
          else Inr [])"

definition build_patients :: "env \<Rightarrow> response_body \<Rightarrow> js_error + Patient list" where
  "build_patients e body =
     (case own_record e (resp_my body) of
        Inl err \<Rightarrow> Inl err
      | Inr acc \<Rightarrow>
          push_relatives e (case resp_list body of None \<Rightarrow> [] | Some l \<Rightarrow> l) acc)"

text \<open>
  What the \<^verbatim>\<open>catch\<close> block reads of an error thrown by the code itself: it has no
  \<^verbatim>\<open>response\<close>, and its \<^verbatim>\<open>message\<close> is the engine's text.
\<close>

definition thrown_by_code :: "env \<Rightarrow> js_error \<Rightarrow> thrown_error" where
  "thrown_by_code e err = \<lparr>remote_message = None, error_message = Some (errorMessage e err)\<rparr>"

text \<open>
  The action the thunk ends with, for each outcome of the remote call. The destructuring
  \<^verbatim>\<open>const { list = [], my } = response.data.response\<close> throws when the response has no
  \<^verbatim>\<open>response\<close> member.
\<close>

definition fetchPatients :: "env \<Rightarrow> post_outcome \<Rightarrow> action" where
  "fetchPatients e outcome =
     (case outcome of
        Thrown err \<Rightarrow>
          FetchRejected (Some (catch_message err ''Network error occurred while fetching patients''))
      | Resolved resp \<Rightarrow>
          if rtype resp \<noteq> ''success''
          then FetchRejected (Some ''Failed to fetch patients from server'')
          else (case (case response resp of
                        None \<Rightarrow> Inl CannotDestructure
                      | Some body \<Rightarrow> build_patients e body) of
                  Inr new \<Rightarrow> FetchFulfilled new
                | Inl err \<Rightarrow>
                    FetchRejected
                      (Some (catch_message (thrown_by_code e err)
                               ''Network error occurred while fetching patients''))))"

text \<open>One fetch: the pending transition, then the transition of the thunk's last action.\<close>

definition dispatch_fetchPatients :: "env \<Rightarrow> post_outcome \<Rightarrow> PatientState \<Rightarrow> PatientState" where
  "dispatch_fetchPatients e outcome state =
     reducer (reducer state FetchPending) (fetchPatients e outcome)"

subsection \<open>createPatient\<close>

text \<open>The outbound payload; the three codes are what the registries return.\<close>

record CreateRelativeRequest =
  fname_req :: string
  lname_req :: string
  gender_req :: string
  age_req :: string
  agetype_req :: string
  email_req :: string
  mobileno_req :: string
  countrycode_req :: string
  relationid_req :: js_value
  districtid_req :: js_value
  vdcid_req :: js_value
  wardno_req :: string
  address_req :: string
  addtorelative_req :: string

definition apiData :: "PatientFormData \<Rightarrow> CreateRelativeRequest" where
  "apiData patientData =
     \<lparr>fname_req = firstName patientData,
      lname_req = lastName patientData,
      gender_req = (if gender patientData = ''male'' then ''Male'' else ''Female''),
      age_req = age patientData,
      agetype_req = year patientData,
      email_req = email patientData,
      mobileno_req = phone patientData,
      countrycode_req = ''977'',
      relationid_req = getRelationshipId (relationship patientData),
      districtid_req = getDistrictId (district patientData),
      vdcid_req = getVdcId (vdcMunicipality patientData),
      wardno_req = wardNo patientData,
      address_req = tole patientData,
      addtorelative_req = ''Y''\<rparr>"

text \<open>The remote service is a function from the payload posted to the outcome of the call.\<close>

definition createPatient :: "(CreateRelativeRequest \<Rightarrow> post_outcome) \<Rightarrow> PatientFormData \<Rightarrow> action" where
  "createPatient post patientData =
     (case post (apiData patientData) of
        Thrown err \<Rightarrow>
          CreateRejected (Some (catch_message err ''Network error occurred while creating patient''))
      | Resolved resp \<Rightarrow>
          if rtype resp \<noteq> ''success''
          then CreateRejected (Some (or_default (message resp) ''Failed to create patient''))
          else CreateFulfilled resp)"

definition dispatch_createPatient ::
  "(CreateRelativeRequest \<Rightarrow> post_outcome) \<Rightarrow> PatientFormData \<Rightarrow> PatientState \<Rightarrow> PatientState" where
  "dispatch_createPatient post patientData state =
     reducer (reducer state CreatePending) (createPatient post patientData)"

section \<open>The cache path (patient-hooks.ts)\<close>

subsection \<open>The outbound payload of useCreatePatient\<close>

definition is_digit :: "char \<Rightarrow> bool" where
  "is_digit c = (c \<in> set ''0123456789'')"

definition cleanPhoneNumber :: "string \<Rightarrow> string" where
  "cleanPhoneNumber phone_in =
     (if phone_in = [] then []
      else let cleanNumber = filter is_digit phone_in;
               cleanNumber = (if prefix ''977'' cleanNumber then drop 3 cleanNumber else cleanNumber)
           in if prefix ''0'' cleanNumber then drop 1 cleanNumber else cleanNumber)"

text \<open>
  \<^verbatim>\<open>gender.charAt(0).toUpperCase() + gender.slice(1)\<close>. A first character beyond ASCII
  is kept as it is.
\<close>

definition capitalize :: "string \<Rightarrow> string" where
  "capitalize s = (case s of [] \<Rightarrow> [] | c # cs \<Rightarrow> upper_char c # cs)"

definition apiData_hooks :: "PatientFormData \<Rightarrow> CreateRelativeRequest" where
  "apiData_hooks data_in =
     \<lparr>fname_req = firstName data_in,
      lname_req = lastName data_in,
      gender_req = capitalize (gender data_in),
      age_req = age data_in,
      agetype_req = (if year data_in = [] then ''Years'' else year data_in),
      email_req = email data_in,
      mobileno_req = cleanPhoneNumber (phone data_in),
      countrycode_req = ''977'',
      relationid_req = getRelationId (relationship data_in),
      districtid_req = getDistrictId_hooks (district data_in),
      vdcid_req = getVdcId_hooks (vdcMunicipality data_in),
      wardno_req = wardNo data_in,
      address_req = tole data_in,
      addtorelative_req = ''Y''\<rparr>"

subsection \<open>Query keys\<close>

text \<open>
  A query key is an array; its parts are strings, and the object \<^verbatim>\<open>{ filters }\<close> in the
  key of a filtered list.
\<close>

datatype key_part = KStr string | KFilters string

type_synonym query_key = "key_part list"

definition patientKeys_all :: query_key where
  "patientKeys_all = [KStr ''patients'']"

definition patientKeys_lists :: query_key where
  "patientKeys_lists = patientKeys_all @ [KStr ''list'']"

definition patientKeys_list :: "string \<Rightarrow> query_key" where
  "patientKeys_list filters = patientKeys_lists @ [KFilters filters]"

definition patientKeys_details :: query_key where
  "patientKeys_details = patientKeys_all @ [KStr ''detail'']"

definition patientKeys_detail :: "string \<Rightarrow> query_key" where
  "patientKeys_detail pid = patientKeys_details @ [KStr pid]"

subsection \<open>The query cache\<close>

text \<open>
  The hooks file has a \<^verbatim>\<open>Patient\<close> interface of its own, with optional timestamps. A
  detail key caches one patient, a list key a list of them.
\<close>

record Patient_hooks = "string PatientFields" +
  id_hooks :: string
  createdAt_hooks :: "string option"
  updatedAt_hooks :: "string option"

datatype cached = CPatient Patient_hooks | CPatients "Patient_hooks list"

record query =
  data :: "cached option"
  isInvalidated :: bool

type_synonym query_cache = "query_key \<Rightarrow> query option"

text \<open>
  Modelled from the spec: the query client the hooks call (\<^verbatim>\<open>useQueryClient\<close>) belongs to
  the cache library and is not under src/. Reading a key returns the cached value if
  present.
\<close>

definition getQueryData :: "query_cache \<Rightarrow> query_key \<Rightarrow> cached option" where
  "getQueryData c k = (case c k of None \<Rightarrow> None | Some q \<Rightarrow> data q)"

text \<open>
  Modelled from the spec: the query client is not under src/. \<open>write(key, value)\<close> seeds
  the entry of the key with the value (a direct replace); the entry it writes is fresh.
\<close>

definition setQueryData :: "query_cache \<Rightarrow> query_key \<Rightarrow> cached \<Rightarrow> query_cache" where
  "setQueryData c k v = c(k \<mapsto> \<lparr>data = Some v, isInvalidated = False\<rparr>)"

text \<open>
  Modelled from the spec: the query client is not under src/. \<open>invalidate(key)\<close> marks
  the entry of the key, and every entry whose key descends from it (has it as a prefix),
  as stale, so that the next read refetches; the cached values stay.
\<close>

definition invalidateQueries :: "query_cache \<Rightarrow> query_key \<Rightarrow> query_cache" where
  "invalidateQueries c qk =
     (\<lambda>k. case c k of
             None \<Rightarrow> None
           | Some q \<Rightarrow> Some (if prefix qk k then q\<lparr>isInvalidated := True\<rparr> else q))"

text \<open>
  Modelled from the spec: the query client is not under src/. Removing a key deletes its
  entry, and the entries of the keys that descend from it, outright.
\<close>

definition removeQueries :: "query_cache \<Rightarrow> query_key \<Rightarrow> query_cache" where
  "removeQueries c qk = (\<lambda>k. if prefix qk k then None else c k)"

subsection \<open>The mutations\<close>

text \<open>
  useCreatePatient. \<^verbatim>\<open>mutationFn\<close> posts the payload and resolves with the response the
  remote call resolves with, whatever its \<^verbatim>\<open>type\<close>; \<^verbatim>\<open>onSuccess\<close> then invalidates
  the lists. A call that throws ends in \<^verbatim>\<open>onError\<close>, which only logs.
\<close>

definition useCreatePatient_onSuccess :: "query_cache \<Rightarrow> PatientApiResponse \<Rightarrow> query_cache" where
  "useCreatePatient_onSuccess c resp = invalidateQueries c patientKeys_lists"

definition useCreatePatient_mutate ::
  "(CreateRelativeRequest \<Rightarrow> post_outcome) \<Rightarrow> PatientFormData \<Rightarrow> query_cache \<Rightarrow> query_cache" where
  "useCreatePatient_mutate post data_in c =
     (case post (apiData_hooks data_in) of
        Resolved resp \<Rightarrow> useCreatePatient_onSuccess c resp
      | Thrown err \<Rightarrow> c)"

text \<open>
  useUpdatePatient. The changes are a \<^verbatim>\<open>Partial<CreatePatientData>\<close>: every field may be
  absent. \<open>existingPatient\<close> is what \<^verbatim>\<open>getQueryData\<close> returned for the detail key of the
  identifier, \<open>None\<close> when there is nothing; \<open>now\<close> is \<^verbatim>\<open>new Date().toISOString()\<close>.
\<close>

record PartialPatientData =
  firstName_opt :: "string option"
  lastName_opt :: "string option"
  gender_opt :: "string option"
  age_opt :: "string option"
  year_opt :: "string option"
  dateOfBirth_opt :: "string option"
  email_opt :: "string option"
  phone_opt :: "string option"
  relationship_opt :: "string option"
  district_opt :: "string option"
  vdcMunicipality_opt :: "string option"
  wardNo_opt :: "string option"
  tole_opt :: "string option"

definition spread :: "string \<Rightarrow> string option \<Rightarrow> string" where
  "spread old new = (case new of None \<Rightarrow> old | Some v \<Rightarrow> v)"

definition updatedPatient :: "string \<Rightarrow> Patient_hooks \<Rightarrow> PartialPatientData \<Rightarrow> Patient_hooks" where
  "updatedPatient now existingPatient data_in =
     existingPatient
       \<lparr>firstName := spread (firstName existingPatient) (firstName_opt data_in),
        lastName := spread (lastName existingPatient) (lastName_opt data_in),
        gender := spread (gender existingPatient) (gender_opt data_in),
        age := spread (age existingPatient) (age_opt data_in),
        year := spread (year existingPatient) (year_opt data_in),
        dateOfBirth := spread (dateOfBirth existingPatient) (dateOfBirth_opt data_in),
        email := spread (email existingPatient) (email_opt data_in),
        phone := spread (phone existingPatient) (phone_opt data_in),
        relationship := spread (relationship existingPatient) (relationship_opt data_in),
        district := spread (district existingPatient) (district_opt data_in),
        vdcMunicipality := spread (vdcMunicipality existingPatient) (vdcMunicipality_opt data_in),
        wardNo := spread (wardNo existingPatient) (wardNo_opt data_in),
        tole := spread (tole existingPatient) (tole_opt data_in),
        updatedAt_hooks := Some now\<rparr>"

definition useUpdatePatient_mutationFn ::
  "string \<Rightarrow> Patient_hooks option \<Rightarrow> PartialPatientData \<Rightarrow> string + Patient_hooks" where
  "useUpdatePatient_mutationFn now existingPatient data_in =
     (case existingPatient of
        None \<Rightarrow> Inl ''Patient not found''
      | Some p \<Rightarrow> Inr (updatedPatient now p data_in))"

definition useUpdatePatient_onSuccess :: "query_cache \<Rightarrow> Patient_hooks \<Rightarrow> query_cache" where
  "useUpdatePatient_onSuccess c updated =
     invalidateQueries
       (setQueryData c (patientKeys_detail (id_hooks updated)) (CPatient updated))
       patientKeys_lists"

definition useUpdatePatient_mutate ::
  "string \<Rightarrow> Patient_hooks option \<Rightarrow> PartialPatientData \<Rightarrow> query_cache \<Rightarrow> query_cache" where
  "useUpdatePatient_mutate now existingPatient data_in c =
     (case useUpdatePatient_mutationFn now existingPatient data_in of
        Inr updated \<Rightarrow> useUpdatePatient_onSuccess c updated
      | Inl err \<Rightarrow> c)"

text \<open>useDeletePatient. \<^verbatim>\<open>mutationFn\<close> only waits and resolves.\<close>

definition useDeletePatient_onSuccess :: "query_cache \<Rightarrow> string \<Rightarrow> query_cache" where
  "useDeletePatient_onSuccess c deletedId =
     invalidateQueries (removeQueries c (patientKeys_detail deletedId)) patientKeys_lists"

definition useDeletePatient_mutate :: "string \<Rightarrow> query_cache \<Rightarrow> query_cache" where
  "useDeletePatient_mutate deletedId c = useDeletePatient_onSuccess c deletedId"

section \<open>An environment and inputs for the examples\<close>

text \<open>
  A fixed clock (2 November 2026) and a small date parser that reads exactly the strings
  \<^verbatim>\<open>YYYY/MM/DD\<close> and \<^verbatim>\<open>YYYY-MM-DD\<close> and nothing else. It stands in for the engine's
  parser in the worked examples, which give it strings only; no theorem about the program
  depends on it. The error texts are examples of what an engine reports.
\<close>

definition digits_value :: "string \<Rightarrow> nat" where
  "digits_value s = foldl (\<lambda>n c. 10 * n + (if is_digit c then length (takeWhile (\<lambda>d. d \<noteq> c) ''0123456789'') else 0)) 0 s"

definition parse_ymd :: "string \<Rightarrow> date option" where
  "parse_ymd s =
     (if length s = 10 \<and> s ! 4 \<in> set ''/-'' \<and> s ! 7 = s ! 4
         \<and> list_all is_digit (take 4 s @ take 2 (drop 5 s) @ drop 8 s)
         \<and> 1 \<le> digits_value (take 2 (drop 5 s)) \<and> digits_value (take 2 (drop 5 s)) \<le> 12
         \<and> 1 \<le> digits_value (drop 8 s) \<and> digits_value (drop 8 s) \<le> 31
      then Some \<lparr>getFullYear = int (digits_value (take 4 s)),
                 getMonth = int (digits_value (take 2 (drop 5 s))) - 1,
                 getDate = int (digits_value (drop 8 s))\<rparr>
      else None)"

definition parse_value :: "prim \<Rightarrow> date option" where
  "parse_value v = (case v of PStr s \<Rightarrow> parse_ymd s | PNum n \<Rightarrow> None | PBool b \<Rightarrow> None)"

definition example_env :: env where
  "example_env =
     \<lparr>today = \<lparr>getFullYear = 2026, getMonth = 10, getDate = 2\<rparr>,
      parseDate = parse_value,
      nowIso = ''2026-11-02T09:30:00.000Z'',
      isoString = (\<lambda>v. case parse_value v of
                          None \<Rightarrow> None
                        | Some d \<Rightarrow> Some (map (\<lambda>c. if c = CHR ''/'' then CHR ''-'' else c)
                                             (to_string v)
                                           @ ''T00:00:00.000Z'')),
      errorMessage = (\<lambda>err. case err of
                              NotAFunction \<Rightarrow> ''toLowerCase is not a function''
                            | CannotDestructure \<Rightarrow> ''Cannot destructure property list'')\<rparr>"

definition example_form :: PatientFormData where
  "example_form =
     \<lparr>firstName = ''Sita'', lastName = ''Rai'', gender = ''other'', age = ''30'',
      year = ''Years'', dateOfBirth = ''1996/04/12'', email = ''sita@example.org'',
      phone = ''+977 9841000000'', relationship = ''Sister'', district = ''Kathmandu'',
      vdcMunicipality = ''municipality_b'', wardNo = ''4'', tole = ''Baneshwor''\<rparr>"

definition example_patient :: "string \<Rightarrow> string \<Rightarrow> Patient" where
  "example_patient pid name =
     \<lparr>firstName = PStr name, lastName = PStr ''Rai'', gender = ''female'', age = ''30'',
      year = ''Years'', dateOfBirth = PStr ''1996/04/12'', email = PStr [], phone = PStr [],
      relationship = ''relative'', district = ''District undefined'',
      vdcMunicipality = ''Municipality A'', wardNo = PStr ''1'', tole = PStr ''Unknown'',
      id' = PStr pid, createdAt = ''2026/11/02'', updatedAt = ''2026/11/02''\<rparr>"

definition example_state :: PatientState where
  "example_state =
     \<lparr>patients = [example_patient ''1'' ''Anil'', example_patient ''7'' ''Bina'',
                  example_patient ''7'' ''Chandra''],
      loading = False, error = Some ''earlier failure'', successMessage = None\<rparr>"

definition example_response :: "string \<Rightarrow> string \<Rightarrow> raw option list \<Rightarrow> PatientApiResponse" where
  "example_response t m l =
     \<lparr>message = Some m, response = Some \<lparr>resp_list = Some l, resp_my = None\<rparr>, rtype = t\<rparr>"

definition example_patient_hooks :: "string \<Rightarrow> string \<Rightarrow> Patient_hooks" where
  "example_patient_hooks pid name =
     \<lparr>firstName = name, lastName = ''Rai'', gender = ''female'', age = ''30'',
      year = ''Years'', dateOfBirth = ''1996-04-12'', email = [], phone = [],
      relationship = ''sibling'', district = ''Kathmandu'',
      vdcMunicipality = ''Municipality A'', wardNo = ''1'', tole = ''Unknown'',
      id_hooks = pid, createdAt_hooks = None, updatedAt_hooks = None\<rparr>"

definition example_cache :: query_cache where
  "example_cache =
     [patientKeys_lists \<mapsto>
        \<lparr>data = Some (CPatients [example_patient_hooks ''7'' ''Bina'']), isInvalidated = False\<rparr>,
      patientKeys_detail ''7'' \<mapsto>
        \<lparr>data = Some (CPatient (example_patient_hooks ''7'' ''Bina'')), isInvalidated = False\<rparr>]"

definition no_changes :: PartialPatientData where
  "no_changes =
     \<lparr>firstName_opt = None, lastName_opt = None, gender_opt = None, age_opt = None,
      year_opt = None, dateOfBirth_opt = None, email_opt = None, phone_opt = None,
      relationship_opt = None, district_opt = None, vdcMunicipality_opt = None,
      wardNo_opt = None, tole_opt = None\<rparr>"

text \<open>
  The own record of the spec's scenario, a relative whose identifier and ward number are
  numbers, and a response of type success that carries both, with a \<^verbatim>\<open>null\<close> and a
  string among the elements of its list.
\<close>

definition scenario_record :: raw_record where
  "scenario_record =
     no_fields\<lparr>midasid := Some (PStr ''1''), fname := Some (PStr ''A''), lname := Some (PStr ''B''),
               gender_raw := Some (PStr ''Male''), dobad := Some (PStr ''1990/01/01'')\<rparr>"

definition example_relative :: raw_record where
  "example_relative =
     no_fields\<lparr>userid := Some (PNum ''1000596100''), fname := Some (PStr ''Gita''),
               gender_raw := Some (PStr '' Female ''), wardno := Some (PNum ''4'')\<rparr>"

definition scenario_response :: PatientApiResponse where
  "scenario_response =
     \<lparr>message = Some ''Relative List'',
      response = Some \<lparr>resp_list = Some [None, Some (Prim True), Some (Obj example_relative)],
                       resp_my = Some (Obj scenario_record)\<rparr>,
      rtype = ''success''\<rparr>"

section \<open>Properties of the registries\<close>

text \<open>
  Claim C9. The two transformer implementations give the same domain name different codes:
  the store path encodes the district "kathmandu" to "46", the cache path encodes it to
  "45", so the two district encoders are not the same function.
\<close>

theorem registries_differ_on_kathmandu:
  "getDistrictId ''kathmandu'' = JStr ''46''
   \<and> getDistrictId_hooks ''kathmandu'' = JStr ''45''
   \<and> getDistrictId \<noteq> getDistrictId_hooks"
proof -
  have a: "getDistrictId ''kathmandu'' = JStr ''46''" by code_simp
  have b: "getDistrictId_hooks ''kathmandu'' = JStr ''45''" by code_simp
  have "getDistrictId ''kathmandu'' \<noteq> getDistrictId_hooks ''kathmandu''"
    unfolding a b by simp
  then have "getDistrictId \<noteq> getDistrictId_hooks" by metis
  with a b show ?thesis by simp
qed

section \<open>Properties of the store\<close>

text \<open>
  Claim C6. A successful create (the remote call resolves with a response of type
  success) ends in the fulfilled action carrying that response; its transition sets
  loading to false, sets successMessage to the message of the response and clears error;
  after the pending and the fulfilled transition the patient list is the one before the
  operation.
\<close>

theorem create_success_keeps_patients:
  assumes "post (apiData patientData) = Resolved resp" and "rtype resp = ''success''"
  shows "createPatient post patientData = CreateFulfilled resp
     \<and> reducer state (CreateFulfilled resp)
         = state\<lparr>loading := False, successMessage := message resp, error := None\<rparr>
     \<and> loading (dispatch_createPatient post patientData state) = False
     \<and> successMessage (dispatch_createPatient post patientData state) = message resp
     \<and> error (dispatch_createPatient post patientData state) = None
     \<and> patients (reducer state CreatePending) = patients state
     \<and> patients (dispatch_createPatient post patientData state) = patients state"
  using assms by (simp add: createPatient_def dispatch_createPatient_def)

text \<open>The theorem at a concrete successful create on a store that holds three patients.\<close>

theorem create_success_keeps_patients_witness:
  "rtype (example_response ''success'' ''Relative added'' []) = ''success''
   \<and> successMessage (dispatch_createPatient
        (\<lambda>payload. Resolved (example_response ''success'' ''Relative added'' []))
        example_form example_state) = Some ''Relative added''
   \<and> patients (dispatch_createPatient
        (\<lambda>payload. Resolved (example_response ''success'' ''Relative added'' []))
        example_form example_state) = patients example_state"
proof -
  have t: "rtype (example_response ''success'' ''Relative added'' []) = ''success''"
    by (simp add: example_response_def)
  show ?thesis
    using t create_success_keeps_patients
      [of "\<lambda>payload. Resolved (example_response ''success'' ''Relative added'' [])"
          example_form "example_response ''success'' ''Relative added'' []" example_state, OF refl t]
    by (simp add: example_response_def)
qed

subsection \<open>The replace-by-identifier reducer\<close>

lemma findIndex_lower: "- 1 \<le> findIndex P xs"
  by (induction xs) (auto simp: Let_def)

lemma findIndex_none: "findIndex P xs = - 1 \<longleftrightarrow> (\<forall>x \<in> set xs. \<not> P x)"
proof (induction xs)
  case Nil
  show ?case by simp
next
  case (Cons x xs)
  have "- 1 \<le> findIndex P xs" by (rule findIndex_lower)
  with Cons show ?case by (auto simp: Let_def)
qed

lemma findIndex_first:
  "findIndex P xs \<noteq> - 1 \<Longrightarrow>
     nat (findIndex P xs) < length xs \<and> P (xs ! nat (findIndex P xs))
     \<and> (\<forall>j < nat (findIndex P xs). \<not> P (xs ! j))"
proof (induction xs)
  case Nil
  then show ?case by simp
next
  case (Cons x xs)
  show ?case
  proof (cases "P x")
    case True
    then show ?thesis by simp
  next
    case False
    with Cons.prems have ne: "findIndex P xs \<noteq> - 1"
      by (auto simp: Let_def split: if_splits)
    have lo: "- 1 \<le> findIndex P xs" by (rule findIndex_lower)
    from ne lo have pos: "0 \<le> findIndex P xs" by linarith
    have step: "findIndex P (x # xs) = findIndex P xs + 1"
      using False ne by (simp add: Let_def)
    from pos have n: "nat (findIndex P xs + 1) = Suc (nat (findIndex P xs))" by linarith
    from Cons.IH [OF ne] False show ?thesis
      unfolding step n by (auto simp: less_Suc_eq_0_disj)
  qed
qed

text \<open>
  Claim C10. updatePatient is a replace by identifier. If no patient of the list has the
  payload's id, the state is unchanged. If one has, the first such entry, and only it, is
  replaced by the payload: the length of the list, every other entry, and the loading,
  error and successMessage fields stay as they were.
\<close>

theorem updatePatient_replaces_by_id:
  "((\<forall>p \<in> set (patients state). id' p \<noteq> id' payload) \<longrightarrow>
      reducer state (UpdatePatient payload) = state)
   \<and> ((\<exists>p \<in> set (patients state). id' p = id' payload) \<longrightarrow>
      (\<exists>i < length (patients state).
          id' (patients state ! i) = id' payload
        \<and> (\<forall>j < i. id' (patients state ! j) \<noteq> id' payload)
        \<and> reducer state (UpdatePatient payload) = state\<lparr>patients := (patients state)[i := payload]\<rparr>
        \<and> length (patients (reducer state (UpdatePatient payload))) = length (patients state)
        \<and> patients (reducer state (UpdatePatient payload)) ! i = payload
        \<and> (\<forall>j < length (patients state). j \<noteq> i \<longrightarrow>
              patients (reducer state (UpdatePatient payload)) ! j = patients state ! j)
        \<and> loading (reducer state (UpdatePatient payload)) = loading state
        \<and> error (reducer state (UpdatePatient payload)) = error state
        \<and> successMessage (reducer state (UpdatePatient payload)) = successMessage state))"
proof (intro conjI impI)
  assume "\<forall>p \<in> set (patients state). id' p \<noteq> id' payload"
  then have "findIndex (\<lambda>p. id' p = id' payload) (patients state) = - 1"
    by (simp add: findIndex_none)
  then show "reducer state (UpdatePatient payload) = state" by simp
next
  let ?P = "\<lambda>p. id' p = id' payload"
  let ?i = "nat (findIndex ?P (patients state))"
  assume "\<exists>p \<in> set (patients state). id' p = id' payload"
  then have ne: "findIndex ?P (patients state) \<noteq> - 1"
    by (simp add: findIndex_none)
  from findIndex_first [OF ne]
  have i: "?i < length (patients state)" and hit: "?P (patients state ! ?i)"
    and first: "\<forall>j < ?i. \<not> ?P (patients state ! j)" by blast+
  have upd: "reducer state (UpdatePatient payload) = state\<lparr>patients := (patients state)[?i := payload]\<rparr>"
    using ne by (simp add: Let_def)
  show "\<exists>i < length (patients state).
          id' (patients state ! i) = id' payload
        \<and> (\<forall>j < i. id' (patients state ! j) \<noteq> id' payload)
        \<and> reducer state (UpdatePatient payload) = state\<lparr>patients := (patients state)[i := payload]\<rparr>
        \<and> length (patients (reducer state (UpdatePatient payload))) = length (patients state)
        \<and> patients (reducer state (UpdatePatient payload)) ! i = payload
        \<and> (\<forall>j < length (patients state). j \<noteq> i \<longrightarrow>
              patients (reducer state (UpdatePatient payload)) ! j = patients state ! j)
        \<and> loading (reducer state (UpdatePatient payload)) = loading state
        \<and> error (reducer state (UpdatePatient payload)) = error state
        \<and> successMessage (reducer state (UpdatePatient payload)) = successMessage state"
  proof (intro exI [of _ ?i] conjI)
    show "?i < length (patients state)" by (rule i)
    show "id' (patients state ! ?i) = id' payload" by (rule hit)
    show "\<forall>j < ?i. id' (patients state ! j) \<noteq> id' payload" using first by simp
    show "reducer state (UpdatePatient payload) = state\<lparr>patients := (patients state)[?i := payload]\<rparr>"
      by (rule upd)
    show "length (patients (reducer state (UpdatePatient payload))) = length (patients state)"
      unfolding upd by simp
    show "patients (reducer state (UpdatePatient payload)) ! ?i = payload"
      unfolding upd using i by simp
    show "\<forall>j < length (patients state). j \<noteq> ?i \<longrightarrow>
              patients (reducer state (UpdatePatient payload)) ! j = patients state ! j"
      unfolding upd by simp
    show "loading (reducer state (UpdatePatient payload)) = loading state"
      unfolding upd by simp
    show "error (reducer state (UpdatePatient payload)) = error state"
      unfolding upd by simp
    show "successMessage (reducer state (UpdatePatient payload)) = successMessage state"
      unfolding upd by simp
  qed
qed

text \<open>
  The theorem at a store whose second and third patient share the id "7": the second is
  replaced, the third stays; a payload with an id nobody has changes nothing.
\<close>

theorem updatePatient_replaces_by_id_witness:
  "(\<exists>p \<in> set (patients example_state). id' p = id' (example_patient ''7'' ''Dev''))
   \<and> patients (reducer example_state (UpdatePatient (example_patient ''7'' ''Dev'')))
       = [example_patient ''1'' ''Anil'', example_patient ''7'' ''Dev'',
          example_patient ''7'' ''Chandra'']
   \<and> error (reducer example_state (UpdatePatient (example_patient ''7'' ''Dev'')))
       = error example_state
   \<and> id' (example_patient ''9'' ''Esha'') \<notin> set (map id' (patients example_state))
   \<and> reducer example_state (UpdatePatient (example_patient ''9'' ''Esha'')) = example_state"
proof -
  have hit: "\<exists>p \<in> set (patients example_state). id' p = id' (example_patient ''7'' ''Dev'')"
    by (simp add: example_state_def example_patient_def)
  have miss: "\<forall>p \<in> set (patients example_state). id' p \<noteq> id' (example_patient ''9'' ''Esha'')"
    by (simp add: example_state_def example_patient_def)
  have same: "reducer example_state (UpdatePatient (example_patient ''9'' ''Esha'')) = example_state"
    using miss updatePatient_replaces_by_id [of example_state "example_patient ''9'' ''Esha''"]
    by blast
  have frame: "error (reducer example_state (UpdatePatient (example_patient ''7'' ''Dev'')))
       = error example_state"
    using hit updatePatient_replaces_by_id [of example_state "example_patient ''7'' ''Dev''"]
    by blast
  have new: "patients (reducer example_state (UpdatePatient (example_patient ''7'' ''Dev'')))
       = [example_patient ''1'' ''Anil'', example_patient ''7'' ''Dev'',
          example_patient ''7'' ''Chandra'']"
    by (simp add: example_state_def example_patient_def)
  from miss have miss': "id' (example_patient ''9'' ''Esha'') \<notin> set (map id' (patients example_state))"
    by auto
  from hit new frame miss' same show ?thesis by blast
qed

subsection \<open>Fetching\<close>

text \<open>
  The transformer throws exactly when the gender is a number or a boolean, and then the
  error of a call of no function; with a gender that is absent, \<^verbatim>\<open>null\<close> or a string it
  returns a patient.
\<close>

lemma gender_of_cases:
  "gender_of r = Inl NotAFunction \<longleftrightarrow> (\<exists>n. gender_raw r = Some (PNum n)) \<or> (\<exists>b. gender_raw r = Some (PBool b))"
  by (auto simp: gender_of_def split: option.splits prim.splits)

lemma transform_returns:
  assumes "gender_raw (fields_of v) = None \<or> (\<exists>g. gender_raw (fields_of v) = Some (PStr g))"
  shows "\<exists>p. transformPatientData e v = Inr p"
  using assms
  by (auto simp: transformPatientData_def transformRecord_def gender_of_def)

lemma transform_throws:
  assumes "(\<exists>n. gender_raw (fields_of v) = Some (PNum n)) \<or> (\<exists>b. gender_raw (fields_of v) = Some (PBool b))"
  shows "transformPatientData e v = Inl NotAFunction"
  using assms
  by (auto simp: transformPatientData_def transformRecord_def gender_of_def)

lemma transform_error_kind:
  assumes "transformPatientData e v = Inl err"
  shows "err = NotAFunction"
  using assms
  by (auto simp: transformPatientData_def transformRecord_def gender_of_def
      split: sum.splits option.splits prim.splits)

text \<open>
  When no transformation throws, the loop over the list appends, in order, the
  transformation of every element that passes the guard; likewise the own record.
\<close>

lemma push_relatives_returns:
  assumes "\<forall>v \<in> set [v. Some v \<leftarrow> xs, raw_truthy v \<and> is_object v].
             gender_raw (fields_of v) = None \<or> (\<exists>g. gender_raw (fields_of v) = Some (PStr g))"
  shows "\<exists>ps. push_relatives e xs acc = Inr (acc @ ps)
           \<and> list_all2 (\<lambda>v p. transformPatientData e v = Inr p)
                [v. Some v \<leftarrow> xs, raw_truthy v \<and> is_object v] ps"
  using assms
proof (induction xs arbitrary: acc)
  case Nil
  show ?case by simp
next
  case (Cons relative rest)
  show ?case
  proof (cases "relative_object relative")
    case None
    then have skip: "[v. Some v \<leftarrow> relative # rest, raw_truthy v \<and> is_object v]
                   = [v. Some v \<leftarrow> rest, raw_truthy v \<and> is_object v]"
      by (auto simp: relative_object_def split: option.splits if_splits)
    from Cons.prems have "\<forall>v \<in> set [v. Some v \<leftarrow> rest, raw_truthy v \<and> is_object v].
             gender_raw (fields_of v) = None \<or> (\<exists>g. gender_raw (fields_of v) = Some (PStr g))"
      unfolding skip .
    from Cons.IH [OF this, of acc] None show ?thesis
      unfolding skip by simp
  next
    case (Some v)
    then have keep: "[v. Some v \<leftarrow> relative # rest, raw_truthy v \<and> is_object v]
                   = v # [v. Some v \<leftarrow> rest, raw_truthy v \<and> is_object v]"
      by (auto simp: relative_object_def split: option.splits if_splits)
    from Cons.prems have ok: "gender_raw (fields_of v) = None \<or> (\<exists>g. gender_raw (fields_of v) = Some (PStr g))"
      and rest: "\<forall>v \<in> set [v. Some v \<leftarrow> rest, raw_truthy v \<and> is_object v].
             gender_raw (fields_of v) = None \<or> (\<exists>g. gender_raw (fields_of v) = Some (PStr g))"
      unfolding keep by simp_all
    from transform_returns [OF ok] obtain p where p: "transformPatientData e v = Inr p" by blast
    from Cons.IH [OF rest, of "acc @ [p]"] obtain ps where
      ps: "push_relatives e rest (acc @ [p]) = Inr ((acc @ [p]) @ ps)"
      and all: "list_all2 (\<lambda>v p. transformPatientData e v = Inr p)
                [v. Some v \<leftarrow> rest, raw_truthy v \<and> is_object v] ps" by blast
    have "push_relatives e (relative # rest) acc = Inr (acc @ (p # ps))"
      using Some p ps by simp
    moreover have "list_all2 (\<lambda>v p. transformPatientData e v = Inr p)
                [v. Some v \<leftarrow> relative # rest, raw_truthy v \<and> is_object v] (p # ps)"
      unfolding keep using p all by simp
    ultimately show ?thesis by blast
  qed
qed

lemma own_record_returns:
  assumes "\<forall>v \<in> set [v. Some v \<leftarrow> [my], raw_truthy v].
             gender_raw (fields_of v) = None \<or> (\<exists>g. gender_raw (fields_of v) = Some (PStr g))"
  shows "\<exists>ps. own_record e my = Inr ps
           \<and> list_all2 (\<lambda>v p. transformPatientData e v = Inr p) [v. Some v \<leftarrow> [my], raw_truthy v] ps"
proof (cases my)
  case None
  then show ?thesis by (simp add: own_record_def)
next
  case (Some v)
  show ?thesis
  proof (cases "raw_truthy v")
    case False
    with Some show ?thesis by (simp add: own_record_def)
  next
    case True
    with Some assms have "gender_raw (fields_of v) = None \<or> (\<exists>g. gender_raw (fields_of v) = Some (PStr g))"
      by simp
    from transform_returns [OF this] obtain p where "transformPatientData e v = Inr p" by blast
    with Some True show ?thesis by (simp add: own_record_def)
  qed
qed

text \<open>
  Claim C1, as amended. For every fetch whose remote response has type success and a
  \<^verbatim>\<open>response\<close> member, and in which the gender of every value that is transformed is
  absent, null or a string (so that nothing throws while the list is built), the thunk
  ends in the fulfilled action, whose transition sets loading to false, sets error to null
  and replaces the whole patient list. The new list is the transformation of the
  own-record entity first, when it is truthy, followed by the transformation of each
  element of the response's list that is a non-null object, in the remote-supplied order;
  an element that is null or a primitive is skipped.
\<close>

theorem fetch_success_replaces_list:
  assumes "rtype resp = ''success''"
    and "response resp = Some body"
    and "\<forall>v \<in> set ([v. Some v \<leftarrow> [resp_my body], raw_truthy v]
                   @ [v. Some v \<leftarrow> (case resp_list body of None \<Rightarrow> [] | Some l \<Rightarrow> l),
                          raw_truthy v \<and> is_object v]).
           gender_raw (fields_of v) = None \<or> (\<exists>g. gender_raw (fields_of v) = Some (PStr g))"
  shows "\<exists>new. fetchPatients e (Resolved resp) = FetchFulfilled new
       \<and> list_all2 (\<lambda>v p. transformPatientData e v = Inr p)
           ([v. Some v \<leftarrow> [resp_my body], raw_truthy v]
            @ [v. Some v \<leftarrow> (case resp_list body of None \<Rightarrow> [] | Some l \<Rightarrow> l),
                   raw_truthy v \<and> is_object v])
           new
       \<and> reducer state (FetchFulfilled new)
           = state\<lparr>loading := False, patients := new, error := None\<rparr>
       \<and> loading (dispatch_fetchPatients e (Resolved resp) state) = False
       \<and> error (dispatch_fetchPatients e (Resolved resp) state) = None
       \<and> patients (dispatch_fetchPatients e (Resolved resp) state) = new"
proof -
  let ?my = "resp_my body"
  let ?list = "case resp_list body of None \<Rightarrow> [] | Some l \<Rightarrow> l"
  from assms(3) have my_ok: "\<forall>v \<in> set [v. Some v \<leftarrow> [?my], raw_truthy v].
             gender_raw (fields_of v) = None \<or> (\<exists>g. gender_raw (fields_of v) = Some (PStr g))"
    and list_ok: "\<forall>v \<in> set [v. Some v \<leftarrow> ?list, raw_truthy v \<and> is_object v].
             gender_raw (fields_of v) = None \<or> (\<exists>g. gender_raw (fields_of v) = Some (PStr g))"
    by auto
  from own_record_returns [OF my_ok] obtain own where
    own: "own_record e ?my = Inr own"
    and own_all: "list_all2 (\<lambda>v p. transformPatientData e v = Inr p) [v. Some v \<leftarrow> [?my], raw_truthy v] own"
    by blast
  from push_relatives_returns [OF list_ok, of e own] obtain ps where
    ps: "push_relatives e ?list own = Inr (own @ ps)"
    and ps_all: "list_all2 (\<lambda>v p. transformPatientData e v = Inr p)
                [v. Some v \<leftarrow> ?list, raw_truthy v \<and> is_object v] ps"
    by blast
  have built: "build_patients e body = Inr (own @ ps)"
    using own ps by (simp add: build_patients_def)
  have f: "fetchPatients e (Resolved resp) = FetchFulfilled (own @ ps)"
    using assms(1,2) built by (simp add: fetchPatients_def)
  have all: "list_all2 (\<lambda>v p. transformPatientData e v = Inr p)
           ([v. Some v \<leftarrow> [?my], raw_truthy v]
            @ [v. Some v \<leftarrow> ?list, raw_truthy v \<and> is_object v])
           (own @ ps)"
    using own_all ps_all by (rule list_all2_appendI)
  show ?thesis
  proof (intro exI [of _ "own @ ps"] conjI)
    show "fetchPatients e (Resolved resp) = FetchFulfilled (own @ ps)" by (rule f)
    show "list_all2 (\<lambda>v p. transformPatientData e v = Inr p)
           ([v. Some v \<leftarrow> [?my], raw_truthy v]
            @ [v. Some v \<leftarrow> ?list, raw_truthy v \<and> is_object v])
           (own @ ps)" by (rule all)
    show "reducer state (FetchFulfilled (own @ ps))
           = state\<lparr>loading := False, patients := own @ ps, error := None\<rparr>" by simp
    show "loading (dispatch_fetchPatients e (Resolved resp) state) = False"
      by (simp add: dispatch_fetchPatients_def f)
    show "error (dispatch_fetchPatients e (Resolved resp) state) = None"
      by (simp add: dispatch_fetchPatients_def f)
    show "patients (dispatch_fetchPatients e (Resolved resp) state) = own @ ps"
      by (simp add: dispatch_fetchPatients_def f)
  qed
qed

text \<open>
  When the gender of some value that is transformed is a number or a boolean, the
  transformer throws inside the \<^verbatim>\<open>try\<close> block: the fetch ends rejected with the
  engine's error text, and the patient list stays as it was.
\<close>

lemma push_relatives_throws:
  assumes "\<exists>v \<in> set [v. Some v \<leftarrow> xs, raw_truthy v \<and> is_object v].
             (\<exists>n. gender_raw (fields_of v) = Some (PNum n)) \<or> (\<exists>b. gender_raw (fields_of v) = Some (PBool b))"
  shows "push_relatives e xs acc = Inl NotAFunction"
  using assms
proof (induction xs arbitrary: acc)
  case Nil
  then show ?case by simp
next
  case (Cons relative rest)
  show ?case
  proof (cases "relative_object relative")
    case None
    then have skip: "[v. Some v \<leftarrow> relative # rest, raw_truthy v \<and> is_object v]
                   = [v. Some v \<leftarrow> rest, raw_truthy v \<and> is_object v]"
      by (auto simp: relative_object_def split: option.splits if_splits)
    from Cons.prems have "\<exists>v \<in> set [v. Some v \<leftarrow> rest, raw_truthy v \<and> is_object v].
             (\<exists>n. gender_raw (fields_of v) = Some (PNum n)) \<or> (\<exists>b. gender_raw (fields_of v) = Some (PBool b))"
      unfolding skip .
    from Cons.IH [OF this, of acc] None show ?thesis by simp
  next
    case (Some v)
    then have keep: "[v. Some v \<leftarrow> relative # rest, raw_truthy v \<and> is_object v]
                   = v # [v. Some v \<leftarrow> rest, raw_truthy v \<and> is_object v]"
      by (auto simp: relative_object_def split: option.splits if_splits)
    show ?thesis
    proof (cases "transformPatientData e v")
      case (Inl err)
      with Some transform_error_kind [OF Inl] show ?thesis by simp
    next
      case (Inr p)
      then have "\<not> ((\<exists>n. gender_raw (fields_of v) = Some (PNum n)) \<or> (\<exists>b. gender_raw (fields_of v) = Some (PBool b)))"
        using transform_throws [of v e] by auto
      with Cons.prems have "\<exists>v \<in> set [v. Some v \<leftarrow> rest, raw_truthy v \<and> is_object v].
             (\<exists>n. gender_raw (fields_of v) = Some (PNum n)) \<or> (\<exists>b. gender_raw (fields_of v) = Some (PBool b))"
        unfolding keep by auto
      from Cons.IH [OF this, of "acc @ [p]"] Some Inr show ?thesis by simp
    qed
  qed
qed

lemma fetch_success_transformer_throws:
  assumes "rtype resp = ''success''"
    and "response resp = Some body"
    and "\<exists>v \<in> set ([v. Some v \<leftarrow> [resp_my body], raw_truthy v]
                   @ [v. Some v \<leftarrow> (case resp_list body of None \<Rightarrow> [] | Some l \<Rightarrow> l),
                          raw_truthy v \<and> is_object v]).
           (\<exists>n. gender_raw (fields_of v) = Some (PNum n)) \<or> (\<exists>b. gender_raw (fields_of v) = Some (PBool b))"
  shows "fetchPatients e (Resolved resp)
           = FetchRejected (Some (or_default (Some (errorMessage e NotAFunction))
                ''Network error occurred while fetching patients''))
       \<and> patients (dispatch_fetchPatients e (Resolved resp) state) = patients state"
proof -
  have "build_patients e body = Inl NotAFunction"
  proof (cases "own_record e (resp_my body)")
    case (Inl err)
    then have "err = NotAFunction"
      using transform_error_kind [of e _ err]
      by (auto simp: own_record_def split: option.splits if_splits sum.splits)
    with Inl show ?thesis by (simp add: build_patients_def)
  next
    case (Inr own)
    then have "\<not> (\<exists>v \<in> set [v. Some v \<leftarrow> [resp_my body], raw_truthy v].
             (\<exists>n. gender_raw (fields_of v) = Some (PNum n)) \<or> (\<exists>b. gender_raw (fields_of v) = Some (PBool b)))"
      using transform_throws [of _ e]
      by (auto simp: own_record_def split: option.splits if_splits sum.splits)
    with assms(3) have "\<exists>v \<in> set [v. Some v \<leftarrow> (case resp_list body of None \<Rightarrow> [] | Some l \<Rightarrow> l),
                          raw_truthy v \<and> is_object v].
           (\<exists>n. gender_raw (fields_of v) = Some (PNum n)) \<or> (\<exists>b. gender_raw (fields_of v) = Some (PBool b))"
      by auto
    from push_relatives_throws [OF this, of e own] Inr show ?thesis
      by (simp add: build_patients_def)
  qed
  then show ?thesis
    using assms(1,2)
    by (simp add: fetchPatients_def dispatch_fetchPatients_def thrown_by_code_def
        catch_message_def or_else_def)
qed

text \<open>
  Claim C1 as stated fails at four responses of type success, on a store that holds
  three patients. A list whose one record has the number 1 as its gender: the fetch ends
  rejected and the list keeps its three patients. A list whose one element is a truthy
  primitive, such as the string "x", which the transformer would accept: the store is left
  with no patient. An own record that is present but falsy, such as \<^verbatim>\<open>false\<close>, which
  the transformer would accept as well: the store is left with no patient. A response
  without \<^verbatim>\<open>response\<close> member: the fetch ends rejected and the list keeps its three
  patients.
\<close>

theorem fetch_success_counterexample:
  "fetchPatients example_env
     (Resolved (example_response ''success'' ''Relative List''
        [Some (Obj (no_fields\<lparr>midasid := Some (PStr ''1''), gender_raw := Some (PNum ''1'')\<rparr>))]))
     = FetchRejected (Some ''toLowerCase is not a function'')
   \<and> patients (dispatch_fetchPatients example_env
        (Resolved (example_response ''success'' ''Relative List''
           [Some (Obj (no_fields\<lparr>midasid := Some (PStr ''1''), gender_raw := Some (PNum ''1'')\<rparr>))]))
        example_state)
       = patients example_state
   \<and> transformPatientData example_env (Prim True) \<noteq> Inl NotAFunction
   \<and> patients (dispatch_fetchPatients example_env
        (Resolved (example_response ''success'' ''Relative List'' [Some (Prim True)])) example_state)
       = []
   \<and> transformPatientData example_env (Prim False) \<noteq> Inl NotAFunction
   \<and> patients (dispatch_fetchPatients example_env
        (Resolved \<lparr>message = Some ''Relative List'',
                   response = Some \<lparr>resp_list = Some [], resp_my = Some (Prim False)\<rparr>,
                   rtype = ''success''\<rparr>) example_state)
       = []
   \<and> fetchPatients example_env
        (Resolved \<lparr>message = Some ''Relative List'', response = None, rtype = ''success''\<rparr>)
       = FetchRejected (Some ''Cannot destructure property list'')
   \<and> patients (dispatch_fetchPatients example_env
        (Resolved \<lparr>message = Some ''Relative List'', response = None, rtype = ''success''\<rparr>)
        example_state)
       = patients example_state"
  by (simp add: example_response_def dispatch_fetchPatients_def fetchPatients_def
      build_patients_def relative_object_def own_record_def transformPatientData_def
      transformRecord_def gender_of_def no_fields_def thrown_by_code_def catch_message_def
      or_default_def or_else_def example_env_def)

text \<open>
  The theorem at the response that carries the own record of the spec's scenario and a
  list of a \<^verbatim>\<open>null\<close>, a string and one relative: the store ends with the two patients,
  the own record first.
\<close>

theorem fetch_success_replaces_list_witness:
  "rtype scenario_response = ''success''
   \<and> patients (dispatch_fetchPatients example_env (Resolved scenario_response) example_state)
       = [\<lparr>firstName = PStr ''A'', lastName = PStr ''B'', gender = ''male'', age = ''36'',
           year = ''Years'', dateOfBirth = PStr ''1990/01/01'', email = PStr [], phone = PStr [],
           relationship = ''relative'', district = ''District undefined'',
           vdcMunicipality = ''Municipality A'', wardNo = PStr ''1'', tole = PStr ''Unknown'',
           id' = PStr ''1'', createdAt = ''2026/11/02'', updatedAt = ''2026/11/02''\<rparr>,
          \<lparr>firstName = PStr ''Gita'', lastName = PStr [], gender = ''female'', age = ''Unknown'',
           year = ''Years'', dateOfBirth = PStr [], email = PStr [], phone = PStr [],
           relationship = ''relative'', district = ''District undefined'',
           vdcMunicipality = ''Municipality A'', wardNo = PNum ''4'', tole = PStr ''Unknown'',
           id' = PNum ''1000596100'', createdAt = ''2026/11/02'', updatedAt = ''2026/11/02''\<rparr>]
   \<and> error (dispatch_fetchPatients example_env (Resolved scenario_response) example_state) = None
   \<and> loading (dispatch_fetchPatients example_env (Resolved scenario_response) example_state) = False"
proof -
  have t: "rtype scenario_response = ''success''" by (simp add: scenario_response_def)
  have b: "response scenario_response
             = Some \<lparr>resp_list = Some [None, Some (Prim True), Some (Obj example_relative)],
                     resp_my = Some (Obj scenario_record)\<rparr>"
    by (simp add: scenario_response_def)
  have vals: "[v. Some v \<leftarrow> [resp_my \<lparr>resp_list = Some [None, Some (Prim True), Some (Obj example_relative)],
                     resp_my = Some (Obj scenario_record)\<rparr>], raw_truthy v]
              @ [v. Some v \<leftarrow> (case resp_list \<lparr>resp_list = Some [None, Some (Prim True), Some (Obj example_relative)],
                     resp_my = Some (Obj scenario_record)\<rparr> of None \<Rightarrow> [] | Some l \<Rightarrow> l),
                     raw_truthy v \<and> is_object v]
            = [Obj scenario_record, Obj example_relative]"
    by simp
  have g: "\<forall>v \<in> set ([v. Some v \<leftarrow> [resp_my \<lparr>resp_list = Some [None, Some (Prim True), Some (Obj example_relative)],
                     resp_my = Some (Obj scenario_record)\<rparr>], raw_truthy v]
                   @ [v. Some v \<leftarrow> (case resp_list \<lparr>resp_list = Some [None, Some (Prim True), Some (Obj example_relative)],
                     resp_my = Some (Obj scenario_record)\<rparr> of None \<Rightarrow> [] | Some l \<Rightarrow> l),
                          raw_truthy v \<and> is_object v]).
           gender_raw (fields_of v) = None \<or> (\<exists>g. gender_raw (fields_of v) = Some (PStr g))"
    unfolding vals by (simp add: scenario_record_def example_relative_def)
  have p1: "transformPatientData example_env (Obj scenario_record) = Inr
        \<lparr>firstName = PStr ''A'', lastName = PStr ''B'', gender = ''male'', age = ''36'',
          year = ''Years'', dateOfBirth = PStr ''1990/01/01'', email = PStr [], phone = PStr [],
          relationship = ''relative'', district = ''District undefined'',
          vdcMunicipality = ''Municipality A'', wardNo = PStr ''1'', tole = PStr ''Unknown'',
          id' = PStr ''1'', createdAt = ''2026/11/02'', updatedAt = ''2026/11/02''\<rparr>"
    by code_simp
  have p2: "transformPatientData example_env (Obj example_relative) = Inr
        \<lparr>firstName = PStr ''Gita'', lastName = PStr [], gender = ''female'', age = ''Unknown'',
          year = ''Years'', dateOfBirth = PStr [], email = PStr [], phone = PStr [],
          relationship = ''relative'', district = ''District undefined'',
          vdcMunicipality = ''Municipality A'', wardNo = PNum ''4'', tole = PStr ''Unknown'',
          id' = PNum ''1000596100'', createdAt = ''2026/11/02'', updatedAt = ''2026/11/02''\<rparr>"
    by code_simp
  from fetch_success_replaces_list [OF t b g, of example_env example_state] obtain new where
    all: "list_all2 (\<lambda>v p. transformPatientData example_env v = Inr p)
            [Obj scenario_record, Obj example_relative] new"
    and l: "loading (dispatch_fetchPatients example_env (Resolved scenario_response) example_state) = False"
    and e: "error (dispatch_fetchPatients example_env (Resolved scenario_response) example_state) = None"
    and p: "patients (dispatch_fetchPatients example_env (Resolved scenario_response) example_state) = new"
    unfolding vals by blast
  from all have "new = [\<lparr>firstName = PStr ''A'', lastName = PStr ''B'', gender = ''male'', age = ''36'',
           year = ''Years'', dateOfBirth = PStr ''1990/01/01'', email = PStr [], phone = PStr [],
           relationship = ''relative'', district = ''District undefined'',
           vdcMunicipality = ''Municipality A'', wardNo = PStr ''1'', tole = PStr ''Unknown'',
           id' = PStr ''1'', createdAt = ''2026/11/02'', updatedAt = ''2026/11/02''\<rparr>,
          \<lparr>firstName = PStr ''Gita'', lastName = PStr [], gender = ''female'', age = ''Unknown'',
           year = ''Years'', dateOfBirth = PStr [], email = PStr [], phone = PStr [],
           relationship = ''relative'', district = ''District undefined'',
           vdcMunicipality = ''Municipality A'', wardNo = PNum ''4'', tole = PStr ''Unknown'',
           id' = PNum ''1000596100'', createdAt = ''2026/11/02'', updatedAt = ''2026/11/02''\<rparr>]"
    by (auto simp: list_all2_Cons1 p1 p2)
  with t l e p show ?thesis by simp
qed

subsection \<open>Error and success message\<close>

text \<open>
  Only a fulfilled create sets a success message: as long as none occurs, a success
  message that is null stays null, whatever other transitions are taken.
\<close>

lemma successMessage_step:
  assumes "successMessage s = None" and "\<forall>resp. a \<noteq> CreateFulfilled resp"
  shows "successMessage (reducer s a) = None"
  using assms by (cases a) (simp_all add: Let_def)

lemma successMessage_stays_null:
  assumes "successMessage s = None" and "\<forall>a \<in> set others. \<forall>resp. a \<noteq> CreateFulfilled resp"
  shows "successMessage (foldl reducer s others) = None"
  using assms
proof (induction others arbitrary: s)
  case Nil
  then show ?case by simp
next
  case (Cons a others)
  from Cons.prems have "successMessage (reducer s a) = None"
    by (intro successMessage_step) simp_all
  moreover from Cons.prems have "\<forall>a \<in> set others. \<forall>resp. a \<noteq> CreateFulfilled resp" by simp
  ultimately show ?case using Cons.IH by simp
qed

text \<open>A rejected transition writes the error and leaves the success message alone.\<close>

lemma rejection_keeps_success_message:
  "successMessage (reducer s (FetchRejected m)) = successMessage s
   \<and> error (reducer s (FetchRejected m)) = m
   \<and> successMessage (reducer s (CreateRejected m)) = successMessage s
   \<and> error (reducer s (CreateRejected m)) = m"
  by simp

text \<open>
  Claim C8, as amended. Take the transitions that follow the pending transition of an
  operation, in any number and order: its own rejected or fulfilled transition, and the
  transitions of other operations that overlap with it, but no fulfilled transition of
  another create. In every state so reached in the lifecycle of a create, and after the
  create's own fulfilled transition, error and successMessage are never both non-null,
  whatever the state before. In every state so reached in the lifecycle of a fetch they
  are never both non-null when successMessage was null as the fetch started. No
  transition of a fetch writes successMessage, nor do a rejected create, clearError and
  updatePatient; clearSuccessMessage and updatePatient do not write error: a message stays
  until one of the other transitions clears or overwrites it.
\<close>

theorem error_success_exclusive:
  assumes "\<forall>a \<in> set others. \<forall>resp. a \<noteq> CreateFulfilled resp"
  shows "(error (foldl reducer (reducer state CreatePending) others) = None
           \<or> successMessage (foldl reducer (reducer state CreatePending) others) = None)
       \<and> (error (reducer (foldl reducer (reducer state CreatePending) others) (CreateFulfilled resp)) = None
           \<or> successMessage (reducer (foldl reducer (reducer state CreatePending) others) (CreateFulfilled resp)) = None)
       \<and> (successMessage state = None \<longrightarrow>
            (error (foldl reducer (reducer state FetchPending) others) = None
              \<or> successMessage (foldl reducer (reducer state FetchPending) others) = None))
       \<and> successMessage (reducer state FetchPending) = successMessage state
       \<and> successMessage (reducer state (FetchFulfilled new)) = successMessage state
       \<and> successMessage (reducer state (FetchRejected m)) = successMessage state
       \<and> successMessage (reducer state (CreateRejected m)) = successMessage state
       \<and> successMessage (reducer state ClearError) = successMessage state
       \<and> successMessage (reducer state (UpdatePatient p)) = successMessage state
       \<and> error (reducer state ClearSuccessMessage) = error state
       \<and> error (reducer state (UpdatePatient p)) = error state"
proof -
  have c: "successMessage (foldl reducer (reducer state CreatePending) others) = None"
    using assms by (intro successMessage_stays_null) simp_all
  have f: "successMessage state = None \<Longrightarrow>
             successMessage (foldl reducer (reducer state FetchPending) others) = None"
    using assms by (intro successMessage_stays_null) simp_all
  from c f show ?thesis by (simp add: Let_def)
qed

text \<open>
  The theorem at a fetch that starts from a state without success message and fails after
  a create has started and failed in between.
\<close>

theorem error_success_exclusive_witness:
  "successMessage example_state = None
   \<and> error (foldl reducer (reducer example_state FetchPending)
        [CreatePending, CreateRejected (Some ''Invalid phone''), FetchRejected (Some ''Network Error'')])
       = Some ''Network Error''
   \<and> successMessage (foldl reducer (reducer example_state FetchPending)
        [CreatePending, CreateRejected (Some ''Invalid phone''), FetchRejected (Some ''Network Error'')])
       = None"
proof -
  have h: "successMessage example_state = None" by (simp add: example_state_def)
  have o: "\<forall>a \<in> set [CreatePending, CreateRejected (Some ''Invalid phone''),
                        FetchRejected (Some ''Network Error'')]. \<forall>resp. a \<noteq> CreateFulfilled resp"
    by simp
  have e: "error (foldl reducer (reducer example_state FetchPending)
        [CreatePending, CreateRejected (Some ''Invalid phone''), FetchRejected (Some ''Network Error'')])
       = Some ''Network Error''" by simp
  from h e error_success_exclusive [OF o, of example_state]
  have "successMessage (foldl reducer (reducer example_state FetchPending)
        [CreatePending, CreateRejected (Some ''Invalid phone''), FetchRejected (Some ''Network Error'')])
       = None" by (metis option.distinct(1))
  with h e show ?thesis by simp
qed

text \<open>
  Claim C8 as stated fails. From the initial state, a successful create followed by a
  fetch that fails leaves, at the end of the fetch, both an error and a success message.
  So does, from the initial state, a fetch that fails after a create has started and
  succeeded in between, and a create that fails after another create has started and
  succeeded in between.
\<close>

theorem fetch_failure_after_create_counterexample:
  "error (dispatch_fetchPatients example_env
       (Thrown \<lparr>remote_message = None, error_message = Some ''Network Error''\<rparr>)
       (dispatch_createPatient
          (\<lambda>payload. Resolved (example_response ''success'' ''Relative added'' []))
          example_form initialState))
     = Some ''Network Error''
   \<and> successMessage (dispatch_fetchPatients example_env
       (Thrown \<lparr>remote_message = None, error_message = Some ''Network Error''\<rparr>)
       (dispatch_createPatient
          (\<lambda>payload. Resolved (example_response ''success'' ''Relative added'' []))
          example_form initialState))
     = Some ''Relative added''
   \<and> error (foldl reducer initialState
        [FetchPending, CreatePending,
         CreateFulfilled (example_response ''success'' ''Relative added'' []),
         FetchRejected (Some ''Network Error'')])
     = Some ''Network Error''
   \<and> successMessage (foldl reducer initialState
        [FetchPending, CreatePending,
         CreateFulfilled (example_response ''success'' ''Relative added'' []),
         FetchRejected (Some ''Network Error'')])
     = Some ''Relative added''
   \<and> error (foldl reducer initialState
        [CreatePending, CreatePending,
         CreateFulfilled (example_response ''success'' ''Relative added'' []),
         CreateRejected (Some ''Invalid phone'')])
     = Some ''Invalid phone''
   \<and> successMessage (foldl reducer initialState
        [CreatePending, CreatePending,
         CreateFulfilled (example_response ''success'' ''Relative added'' []),
         CreateRejected (Some ''Invalid phone'')])
     = Some ''Relative added''"
  by (simp add: dispatch_fetchPatients_def dispatch_createPatient_def fetchPatients_def
      createPatient_def example_response_def catch_message_def or_default_def or_else_def
      initialState_def)

section \<open>Properties of the cache path\<close>

text \<open>A key under the lists key is never a detail key, nor under one.\<close>

lemma lists_key_not_detail:
  assumes "prefix patientKeys_lists k"
  shows "\<not> prefix (patientKeys_detail pid) k" and "k \<noteq> patientKeys_detail pid"
proof -
  from assms obtain zs where k: "k = patientKeys_lists @ zs" by (auto simp: prefix_def)
  show "\<not> prefix (patientKeys_detail pid) k"
    unfolding k by (auto simp: prefix_def patientKeys_detail_def patientKeys_details_def
        patientKeys_lists_def patientKeys_all_def)
  show "k \<noteq> patientKeys_detail pid"
    unfolding k by (auto simp: patientKeys_detail_def patientKeys_details_def
        patientKeys_lists_def patientKeys_all_def)
qed

lemma invalidateQueries_hit:
  "prefix qk k \<Longrightarrow> c k = Some q \<Longrightarrow> invalidateQueries c qk k = Some (q\<lparr>isInvalidated := True\<rparr>)"
  by (simp add: invalidateQueries_def)

lemma invalidateQueries_miss:
  "\<not> prefix qk k \<Longrightarrow> invalidateQueries c qk k = c k"
  by (simp add: invalidateQueries_def split: option.splits)

lemma detail_key_not_under_lists: "\<not> prefix patientKeys_lists (patientKeys_detail pid)"
  by (auto simp: prefix_def patientKeys_detail_def patientKeys_details_def
        patientKeys_lists_def patientKeys_all_def)

lemma update_onSuccess_writes_detail:
  "getQueryData (useUpdatePatient_onSuccess c updated) (patientKeys_detail (id_hooks updated))
     = Some (CPatient updated)"
  unfolding useUpdatePatient_onSuccess_def getQueryData_def
  by (simp add: invalidateQueries_miss [OF detail_key_not_under_lists] setQueryData_def)

text \<open>
  The merge of useUpdatePatient, field by field: a field that the changes carry takes
  their value, every other field keeps the existing one, and updatedAt is the time of
  the mutation.
\<close>

lemma updatedPatient_fields:
  "updatedPatient now existingPatient changes =
     \<lparr>firstName = (case firstName_opt changes of None \<Rightarrow> firstName existingPatient | Some v \<Rightarrow> v),
      lastName = (case lastName_opt changes of None \<Rightarrow> lastName existingPatient | Some v \<Rightarrow> v),
      gender = (case gender_opt changes of None \<Rightarrow> gender existingPatient | Some v \<Rightarrow> v),
      age = (case age_opt changes of None \<Rightarrow> age existingPatient | Some v \<Rightarrow> v),
      year = (case year_opt changes of None \<Rightarrow> year existingPatient | Some v \<Rightarrow> v),
      dateOfBirth = (case dateOfBirth_opt changes of None \<Rightarrow> dateOfBirth existingPatient | Some v \<Rightarrow> v),
      email = (case email_opt changes of None \<Rightarrow> email existingPatient | Some v \<Rightarrow> v),
      phone = (case phone_opt changes of None \<Rightarrow> phone existingPatient | Some v \<Rightarrow> v),
      relationship = (case relationship_opt changes of None \<Rightarrow> relationship existingPatient | Some v \<Rightarrow> v),
      district = (case district_opt changes of None \<Rightarrow> district existingPatient | Some v \<Rightarrow> v),
      vdcMunicipality =
        (case vdcMunicipality_opt changes of None \<Rightarrow> vdcMunicipality existingPatient | Some v \<Rightarrow> v),
      wardNo = (case wardNo_opt changes of None \<Rightarrow> wardNo existingPatient | Some v \<Rightarrow> v),
      tole = (case tole_opt changes of None \<Rightarrow> tole existingPatient | Some v \<Rightarrow> v),
      id_hooks = id_hooks existingPatient,
      createdAt_hooks = createdAt_hooks existingPatient,
      updatedAt_hooks = Some now\<rparr>"
  by (rule Patient_hooks.equality) (simp_all add: updatedPatient_def spread_def)

text \<open>
  Claim C7. On success, each of the three mutations invalidates every cached entry under
  the collection-level list key (the entry of the key itself included) and keeps its
  data. The update mutation writes its result into the detail key of the result's
  identifier. That result is the merged entity: it has the identifier and the creation
  time of the existing patient, the value of the changes in every field that the changes
  carry, the existing value in every other field, and the time of the mutation as
  updatedAt; a read of the patient's detail key after the mutation returns it. An update
  that finds no existing patient fails and leaves the cache as it was. The delete
  mutation leaves no entry at the detail key of the deleted identifier.
\<close>

theorem cache_mutation_protocol:
  "(\<forall>k q. prefix patientKeys_lists k \<and> c k = Some q \<longrightarrow>
        useCreatePatient_onSuccess c resp k = Some (q\<lparr>isInvalidated := True\<rparr>)
      \<and> useUpdatePatient_onSuccess c updated k = Some (q\<lparr>isInvalidated := True\<rparr>)
      \<and> useDeletePatient_onSuccess c deletedId k = Some (q\<lparr>isInvalidated := True\<rparr>))
   \<and> getQueryData (useUpdatePatient_onSuccess c updated) (patientKeys_detail (id_hooks updated))
        = Some (CPatient updated)
   \<and> getQueryData (useUpdatePatient_mutate now (Some existingPatient) changes c)
          (patientKeys_detail (id_hooks existingPatient))
        = Some (CPatient
            \<lparr>firstName = (case firstName_opt changes of None \<Rightarrow> firstName existingPatient | Some v \<Rightarrow> v),
             lastName = (case lastName_opt changes of None \<Rightarrow> lastName existingPatient | Some v \<Rightarrow> v),
             gender = (case gender_opt changes of None \<Rightarrow> gender existingPatient | Some v \<Rightarrow> v),
             age = (case age_opt changes of None \<Rightarrow> age existingPatient | Some v \<Rightarrow> v),
             year = (case year_opt changes of None \<Rightarrow> year existingPatient | Some v \<Rightarrow> v),
             dateOfBirth =
               (case dateOfBirth_opt changes of None \<Rightarrow> dateOfBirth existingPatient | Some v \<Rightarrow> v),
             email = (case email_opt changes of None \<Rightarrow> email existingPatient | Some v \<Rightarrow> v),
             phone = (case phone_opt changes of None \<Rightarrow> phone existingPatient | Some v \<Rightarrow> v),
             relationship =
               (case relationship_opt changes of None \<Rightarrow> relationship existingPatient | Some v \<Rightarrow> v),
             district = (case district_opt changes of None \<Rightarrow> district existingPatient | Some v \<Rightarrow> v),
             vdcMunicipality =
               (case vdcMunicipality_opt changes of
                  None \<Rightarrow> vdcMunicipality existingPatient
                | Some v \<Rightarrow> v),
             wardNo = (case wardNo_opt changes of None \<Rightarrow> wardNo existingPatient | Some v \<Rightarrow> v),
             tole = (case tole_opt changes of None \<Rightarrow> tole existingPatient | Some v \<Rightarrow> v),
             id_hooks = id_hooks existingPatient,
             createdAt_hooks = createdAt_hooks existingPatient,
             updatedAt_hooks = Some now\<rparr>)
   \<and> useUpdatePatient_mutate now None changes c = c
   \<and> useDeletePatient_onSuccess c deletedId (patientKeys_detail deletedId) = None
   \<and> getQueryData (useDeletePatient_onSuccess c deletedId) (patientKeys_detail deletedId) = None"
proof (intro conjI allI impI)
  fix k q
  assume a: "prefix patientKeys_lists k \<and> c k = Some q"
  then have p: "prefix patientKeys_lists k" and q: "c k = Some q" by simp_all
  show "useCreatePatient_onSuccess c resp k = Some (q\<lparr>isInvalidated := True\<rparr>)"
    unfolding useCreatePatient_onSuccess_def using p q by (rule invalidateQueries_hit)
  have "setQueryData c (patientKeys_detail (id_hooks updated)) (CPatient updated) k = Some q"
    using lists_key_not_detail(2) [OF p] q by (simp add: setQueryData_def)
  with p show "useUpdatePatient_onSuccess c updated k = Some (q\<lparr>isInvalidated := True\<rparr>)"
    unfolding useUpdatePatient_onSuccess_def by (rule invalidateQueries_hit)
  have "removeQueries c (patientKeys_detail deletedId) k = Some q"
    using lists_key_not_detail(1) [OF p] q by (simp add: removeQueries_def)
  with p show "useDeletePatient_onSuccess c deletedId k = Some (q\<lparr>isInvalidated := True\<rparr>)"
    unfolding useDeletePatient_onSuccess_def by (rule invalidateQueries_hit)
next
  show "getQueryData (useUpdatePatient_onSuccess c updated) (patientKeys_detail (id_hooks updated))
        = Some (CPatient updated)"
    by (rule update_onSuccess_writes_detail)
next
  have same_id: "id_hooks (updatedPatient now existingPatient changes) = id_hooks existingPatient"
    by (simp add: updatedPatient_def)
  have "useUpdatePatient_mutate now (Some existingPatient) changes c
        = useUpdatePatient_onSuccess c (updatedPatient now existingPatient changes)"
    by (simp add: useUpdatePatient_mutate_def useUpdatePatient_mutationFn_def)
  then have "getQueryData (useUpdatePatient_mutate now (Some existingPatient) changes c)
          (patientKeys_detail (id_hooks existingPatient))
        = Some (CPatient (updatedPatient now existingPatient changes))"
    using update_onSuccess_writes_detail [of c "updatedPatient now existingPatient changes"]
    by (simp add: same_id)
  then show "getQueryData (useUpdatePatient_mutate now (Some existingPatient) changes c)
          (patientKeys_detail (id_hooks existingPatient))
        = Some (CPatient
            \<lparr>firstName = (case firstName_opt changes of None \<Rightarrow> firstName existingPatient | Some v \<Rightarrow> v),
             lastName = (case lastName_opt changes of None \<Rightarrow> lastName existingPatient | Some v \<Rightarrow> v),
             gender = (case gender_opt changes of None \<Rightarrow> gender existingPatient | Some v \<Rightarrow> v),
             age = (case age_opt changes of None \<Rightarrow> age existingPatient | Some v \<Rightarrow> v),
             year = (case year_opt changes of None \<Rightarrow> year existingPatient | Some v \<Rightarrow> v),
             dateOfBirth =
               (case dateOfBirth_opt changes of None \<Rightarrow> dateOfBirth existingPatient | Some v \<Rightarrow> v),
             email = (case email_opt changes of None \<Rightarrow> email existingPatient | Some v \<Rightarrow> v),
             phone = (case phone_opt changes of None \<Rightarrow> phone existingPatient | Some v \<Rightarrow> v),
             relationship =
               (case relationship_opt changes of None \<Rightarrow> relationship existingPatient | Some v \<Rightarrow> v),
             district = (case district_opt changes of None \<Rightarrow> district existingPatient | Some v \<Rightarrow> v),
             vdcMunicipality =
               (case vdcMunicipality_opt changes of
                  None \<Rightarrow> vdcMunicipality existingPatient
                | Some v \<Rightarrow> v),
             wardNo = (case wardNo_opt changes of None \<Rightarrow> wardNo existingPatient | Some v \<Rightarrow> v),
             tole = (case tole_opt changes of None \<Rightarrow> tole existingPatient | Some v \<Rightarrow> v),
             id_hooks = id_hooks existingPatient,
             createdAt_hooks = createdAt_hooks existingPatient,
             updatedAt_hooks = Some now\<rparr>)"
    by (simp only: updatedPatient_fields)
next
  show "useUpdatePatient_mutate now None changes c = c"
    by (simp add: useUpdatePatient_mutate_def useUpdatePatient_mutationFn_def)
next
  show gone: "useDeletePatient_onSuccess c deletedId (patientKeys_detail deletedId) = None"
    unfolding useDeletePatient_onSuccess_def
    by (simp add: invalidateQueries_miss [OF detail_key_not_under_lists] removeQueries_def)
  show "getQueryData (useDeletePatient_onSuccess c deletedId) (patientKeys_detail deletedId) = None"
    by (simp add: getQueryData_def gone)
qed

text \<open>
  The theorem at a cache that holds the list and the detail of patient "7", and at an
  update that changes her phone and address.
\<close>

theorem cache_mutation_protocol_witness:
  "prefix patientKeys_lists patientKeys_lists
   \<and> example_cache patientKeys_lists
       = Some \<lparr>data = Some (CPatients [example_patient_hooks ''7'' ''Bina'']), isInvalidated = False\<rparr>
   \<and> useCreatePatient_onSuccess example_cache (example_response ''success'' ''Relative added'' [])
        patientKeys_lists
       = Some \<lparr>data = Some (CPatients [example_patient_hooks ''7'' ''Bina'']), isInvalidated = True\<rparr>
   \<and> useDeletePatient_onSuccess example_cache ''7'' patientKeys_lists
       = Some \<lparr>data = Some (CPatients [example_patient_hooks ''7'' ''Bina'']), isInvalidated = True\<rparr>
   \<and> useUpdatePatient_mutate ''2026-11-02T09:30:00.000Z'' (Some (example_patient_hooks ''7'' ''Bina''))
        (no_changes\<lparr>phone_opt := Some ''9841000000'', tole_opt := Some ''Baneshwor''\<rparr>) example_cache
        patientKeys_lists
       = Some \<lparr>data = Some (CPatients [example_patient_hooks ''7'' ''Bina'']), isInvalidated = True\<rparr>
   \<and> getQueryData
        (useUpdatePatient_mutate ''2026-11-02T09:30:00.000Z'' (Some (example_patient_hooks ''7'' ''Bina''))
           (no_changes\<lparr>phone_opt := Some ''9841000000'', tole_opt := Some ''Baneshwor''\<rparr>) example_cache)
        (patientKeys_detail ''7'')
       = Some (CPatient
           \<lparr>firstName = ''Bina'', lastName = ''Rai'', gender = ''female'', age = ''30'',
            year = ''Years'', dateOfBirth = ''1996-04-12'', email = [], phone = ''9841000000'',
            relationship = ''sibling'', district = ''Kathmandu'',
            vdcMunicipality = ''Municipality A'', wardNo = ''1'', tole = ''Baneshwor'',
            id_hooks = ''7'', createdAt_hooks = None,
            updatedAt_hooks = Some ''2026-11-02T09:30:00.000Z''\<rparr>)
   \<and> getQueryData (useDeletePatient_onSuccess example_cache ''7'') (patientKeys_detail ''7'') = None"
proof -
  have p: "prefix patientKeys_lists patientKeys_lists" by simp
  have q: "example_cache patientKeys_lists
       = Some \<lparr>data = Some (CPatients [example_patient_hooks ''7'' ''Bina'']), isInvalidated = False\<rparr>"
    by (simp add: example_cache_def patientKeys_lists_def patientKeys_detail_def
        patientKeys_details_def patientKeys_all_def)
  have m: "useUpdatePatient_mutate ''2026-11-02T09:30:00.000Z'' (Some (example_patient_hooks ''7'' ''Bina''))
        (no_changes\<lparr>phone_opt := Some ''9841000000'', tole_opt := Some ''Baneshwor''\<rparr>) example_cache
       = useUpdatePatient_onSuccess example_cache
           (updatedPatient ''2026-11-02T09:30:00.000Z'' (example_patient_hooks ''7'' ''Bina'')
              (no_changes\<lparr>phone_opt := Some ''9841000000'', tole_opt := Some ''Baneshwor''\<rparr>))"
    by (simp add: useUpdatePatient_mutate_def useUpdatePatient_mutationFn_def)
  show ?thesis
    unfolding m
    using p q
      cache_mutation_protocol
        [of example_cache "example_response ''success'' ''Relative added'' []"
            "updatedPatient ''2026-11-02T09:30:00.000Z'' (example_patient_hooks ''7'' ''Bina'')
              (no_changes\<lparr>phone_opt := Some ''9841000000'', tole_opt := Some ''Baneshwor''\<rparr>)"
            "''7''" "''2026-11-02T09:30:00.000Z''" "example_patient_hooks ''7'' ''Bina''"
            "no_changes\<lparr>phone_opt := Some ''9841000000'', tole_opt := Some ''Baneshwor''\<rparr>"]
    by (simp add: example_patient_hooks_def no_changes_def m updatedPatient_def spread_def)
qed

section \<open>Where the code departs from its own intent\<close>

subsection \<open>Names that object literals inherit\<close>

text \<open>
  Every encoder returns a value that is neither \<^verbatim>\<open>undefined\<close> nor the empty string,
  and a name that is in neither the table nor \<^verbatim>\<open>Object.prototype\<close> gets the default
  code of its category.
\<close>

lemma encoders_never_undefined:
  "truthy (getRelationshipId n) \<and> truthy (getDistrictId n) \<and> truthy (getVdcId n)
   \<and> truthy (getRelationId n) \<and> truthy (getDistrictId_hooks n) \<and> truthy (getVdcId_hooks n)"
  by (simp add: getRelationshipId_def getDistrictId_def getVdcId_def getRelationId_def
      getDistrictId_hooks_def getVdcId_hooks_def js_or_def split: option.splits)

lemma js_get_default:
  "map_of obj key = None \<Longrightarrow> key \<notin> set object_prototype_names \<Longrightarrow>
     js_or (js_get obj key) (JStr d) = JStr d"
  by (simp add: js_get_def js_or_def)

lemma encoders_default:
  assumes "toLowerCase n \<notin> set object_prototype_names"
  shows "map_of relationMap (toLowerCase n) = None \<Longrightarrow> getRelationshipId n = JStr ''9''"
    and "map_of districtMap (toLowerCase n) = None \<Longrightarrow> getDistrictId n = JStr ''46''"
    and "map_of vdcMap (toLowerCase n) = None \<Longrightarrow> getVdcId n = JStr ''1147''"
    and "map_of relationMap_hooks (toLowerCase n) = None \<Longrightarrow> getRelationId n = JStr ''9''"
    and "map_of districtMap_hooks (toLowerCase n) = None \<Longrightarrow> getDistrictId_hooks n = JStr ''45''"
    and "map_of vdcMap_hooks (toLowerCase n) = None \<Longrightarrow> getVdcId_hooks n = JStr ''1147''"
  using assms
  by (simp_all add: getRelationshipId_def getDistrictId_def getVdcId_def getRelationId_def
      getDistrictId_hooks_def getVdcId_hooks_def js_get_default)

text \<open>The Kelvin sign lower-cases to "k": the name below is "pokhara" to the table.\<close>

lemma encoders_kelvin_sign:
  "getDistrictId (''PO'' @ [CHR 0xE2, CHR 0x84, CHR 0xAA] @ ''HARA'') = JStr ''37''"
  by code_simp

text \<open>
  Claim C5 at the name "constructor", which no table has: each of the six encoders
  returns the member of \<^verbatim>\<open>Object.prototype\<close> of that name (the function
  \<^verbatim>\<open>Object\<close>), not the default code of its category. A name that nothing defines, such
  as "Unknown City", does get the default.
\<close>

theorem encoders_inherited_name:
  "map_of relationMap (toLowerCase ''constructor'') = None
   \<and> getRelationshipId ''constructor'' = JInherited ''constructor''
   \<and> getDistrictId ''constructor'' = JInherited ''constructor''
   \<and> getVdcId ''constructor'' = JInherited ''constructor''
   \<and> getRelationId ''constructor'' = JInherited ''constructor''
   \<and> getDistrictId_hooks ''constructor'' = JInherited ''constructor''
   \<and> getVdcId_hooks ''constructor'' = JInherited ''constructor''
   \<and> getRelationshipId ''Unknown City'' = JStr ''9''"
  by code_simp

subsection \<open>Gender in the outbound payload\<close>

text \<open>
  Claim C4 at the gender "other": the payload of the store path carries "Female", the
  payload of the cache path carries "Other".
\<close>

theorem store_gender_other_becomes_female:
  "gender_req (apiData (form\<lparr>gender := ''other''\<rparr>)) = ''Female''
   \<and> gender_req (apiData_hooks (form\<lparr>gender := ''other''\<rparr>)) = ''Other''"
  by (simp add: apiData_def apiData_hooks_def capitalize_def upper_char_def
      upper_letters_def lower_letters_def)

text \<open>On "male" and "female" the two paths agree with the claim.\<close>

lemma gender_male_female:
  "gender_req (apiData (form\<lparr>gender := ''male''\<rparr>)) = ''Male''
   \<and> gender_req (apiData (form\<lparr>gender := ''female''\<rparr>)) = ''Female''
   \<and> gender_req (apiData_hooks (form\<lparr>gender := ''male''\<rparr>)) = ''Male''
   \<and> gender_req (apiData_hooks (form\<lparr>gender := ''female''\<rparr>)) = ''Female''"
  by (simp add: apiData_def apiData_hooks_def capitalize_def upper_char_def
      upper_letters_def lower_letters_def)

subsection \<open>Age of a record without a usable date of birth\<close>

text \<open>
  A record with neither date-of-birth field (absent, null or empty), and a value that is
  no record at all, get the age "Unknown".
\<close>

lemma age_unknown_without_dob:
  assumes "dobbs r = None \<or> dobbs r = Some (PStr [])" and "dobad r = None \<or> dobad r = Some (PStr [])"
    and "transformPatientData e (Obj r) = Inr p"
  shows "age p = ''Unknown''"
  using assms
  by (auto simp: transformPatientData_def transformRecord_def calculateAge_def field_or_else_def
      split: sum.splits)

lemma age_unknown_no_fields:
  "map_sum id age (transformPatientData e (Prim b)) = Inr ''Unknown''
   \<and> map_sum id age (transformPatientData e Arr) = Inr ''Unknown''"
  by (simp add: transformPatientData_def transformRecord_def gender_of_def calculateAge_def
      field_or_else_def no_fields_def)

text \<open>
  Claim C3 at a date of birth that is present and not parseable: when the runtime makes
  an \<^verbatim>\<open>Invalid Date\<close> of the string, the transformer returns a patient (its gender
  being absent, null or a string), and the age of the patient it returns is "NaN", not
  "Unknown".
\<close>

theorem unparseable_dob_gives_NaN:
  assumes "dobbs r = None" and "dobad r = Some (PStr s)" and "s \<noteq> []"
    and "parseDate e (PStr s) = None"
  shows "(gender_raw r = None \<or> (\<exists>g. gender_raw r = Some (PStr g))
            \<longrightarrow> (\<exists>p. transformPatientData e (Obj r) = Inr p))
       \<and> (\<forall>p. transformPatientData e (Obj r) = Inr p \<longrightarrow> age p = ''NaN'')"
  using assms
  by (auto simp: transformPatientData_def transformRecord_def gender_of_def calculateAge_def
      field_or_else_def split: sum.splits)

text \<open>The theorem at the record whose only field is the date of birth "not a date".\<close>

theorem unparseable_dob_gives_NaN_witness:
  "parseDate example_env (PStr ''not a date'') = None
   \<and> map_sum id age
        (transformPatientData example_env (Obj (no_fields\<lparr>dobad := Some (PStr ''not a date'')\<rparr>)))
       = Inr ''NaN''"
proof -
  have p: "parseDate example_env (PStr ''not a date'') = None"
    by (simp add: example_env_def parse_value_def parse_ymd_def)
  have a: "dobbs (no_fields\<lparr>dobad := Some (PStr ''not a date'')\<rparr>) = None"
    by (simp add: no_fields_def)
  have b: "dobad (no_fields\<lparr>dobad := Some (PStr ''not a date'')\<rparr>) = Some (PStr ''not a date'')"
    by simp
  have c: "''not a date'' \<noteq> []" by simp
  have g: "gender_raw (no_fields\<lparr>dobad := Some (PStr ''not a date'')\<rparr>) = None"
    by (simp add: no_fields_def)
  from unparseable_dob_gives_NaN [OF a b c p] g obtain q where
    q: "transformPatientData example_env (Obj (no_fields\<lparr>dobad := Some (PStr ''not a date'')\<rparr>)) = Inr q"
    and n: "age q = ''NaN''" by blast
  from p q n show ?thesis by simp
qed

subsection \<open>The message of a failed fetch\<close>

text \<open>
  A fetch that ends rejected leaves the patient list alone, sets loading to false and
  sets error to the non-null payload. For a thrown error the payload is the remote
  message, else the error's message, else the generic text; for a response that is not
  of type success it is one fixed text.
\<close>

lemma fetch_failure_frame:
  assumes "fetchPatients e outcome = FetchRejected m"
  shows "patients (dispatch_fetchPatients e outcome state) = patients state
     \<and> loading (dispatch_fetchPatients e outcome state) = False
     \<and> error (dispatch_fetchPatients e outcome state) = m
     \<and> m \<noteq> None"
  using assms
  by (auto simp: dispatch_fetchPatients_def fetchPatients_def
      split: post_outcome.splits if_splits sum.splits)

lemma fetch_failure_cases:
  "fetchPatients e (Thrown err)
     = FetchRejected (Some (or_default (or_else (remote_message err) (error_message err))
         ''Network error occurred while fetching patients''))
   \<and> (rtype resp \<noteq> ''success'' \<longrightarrow>
        fetchPatients e (Resolved resp) = FetchRejected (Some ''Failed to fetch patients from server''))"
  by (simp add: fetchPatients_def catch_message_def)

text \<open>
  Claim C2 at a response of type "error" with the message "Session expired": the store's
  error is the fixed text, not the remote message. createPatient, on the same response,
  takes the remote message.
\<close>

theorem fetch_rejection_ignores_remote_message:
  "fetchPatients e (Resolved (example_response ''error'' ''Session expired'' []))
     = FetchRejected (Some ''Failed to fetch patients from server'')
   \<and> error (dispatch_fetchPatients e (Resolved (example_response ''error'' ''Session expired'' [])) state)
     = Some ''Failed to fetch patients from server''
   \<and> createPatient (\<lambda>payload. Resolved (example_response ''error'' ''Session expired'' [])) form
     = CreateRejected (Some ''Session expired'')"
  by (simp add: fetchPatients_def dispatch_fetchPatients_def createPatient_def
      example_response_def or_default_def)

end
